theory Spec2Isabelle
  imports Complex_Main "HOL-Library.Sublist"
begin

section \<open>Python values and strings\<close>

text \<open>
  The program is \<^verbatim>\<open>TTS-prototype/main.py\<close>: a command-line tool and an HTTP gateway in
  front of a text-to-speech provider. A Python \<^verbatim>\<open>str\<close> is modelled as a \<^typ>\<open>string\<close>
  whose characters are the code points below 256; on that range \<^verbatim>\<open>str.isspace\<close>,
  \<^verbatim>\<open>str.strip\<close> and \<^verbatim>\<open>str.lower\<close> are the tables written out below. Byte strings are
  \<^typ>\<open>string\<close> as well.
\<close>

definition py_isspace :: "char \<Rightarrow> bool" where
  "py_isspace c \<longleftrightarrow> (of_char c :: nat) \<in> set [9, 10, 11, 12, 13, 28, 29, 30, 31, 32, 133, 160]"

definition py_strip :: "string \<Rightarrow> string" where
  "py_strip s = rev (dropWhile py_isspace (rev (dropWhile py_isspace s)))"

definition py_lower_char :: "char \<Rightarrow> char" where
  "py_lower_char c =
     (let n = (of_char c :: nat)
      in if (65 \<le> n \<and> n \<le> 90) \<or> (192 \<le> n \<and> n \<le> 222 \<and> n \<noteq> 215)
         then char_of (n + 32) else c)"

definition py_lower :: "string \<Rightarrow> string" where
  "py_lower s = map py_lower_char s"

text \<open>\<^verbatim>\<open>str(n)\<close> for a non-negative integer: its decimal digits.\<close>

fun str_nat :: "nat \<Rightarrow> string" where
  "str_nat n =
     (if n < 10 then [char_of (48 + n)]
      else str_nat (n div 10) @ [char_of (48 + n mod 10)])"

declare str_nat.simps [simp del]

text \<open>
  Values that come out of \<^verbatim>\<open>json.loads\<close>, and every dynamically typed value the program
  passes around (\<^verbatim>\<open>None\<close> is \<open>JNull\<close>). An object is the list of the items of a Python
  \<^verbatim>\<open>dict\<close>, in its order and with each key once; \<^verbatim>\<open>dict.get\<close> finds the item with the key.
  A float is its value, or one of the three values that are not numbers of the rationals.
\<close>

datatype pyfloat = Finite rat | PosInf | NegInf | NaN

datatype json =
    JNull
  | JBool bool
  | JInt int
  | JFloat pyfloat
  | JStr string
  | JList "json list"
  | JObj "(string \<times> json) list"

text \<open>Truth value of a Python object, as \<^verbatim>\<open>if x\<close>, \<^verbatim>\<open>not x\<close> and \<^verbatim>\<open>x or y\<close> test it.\<close>

fun truthy :: "json \<Rightarrow> bool" where
  "truthy JNull = False"
| "truthy (JBool b) = b"
| "truthy (JInt i) = (i \<noteq> 0)"
| "truthy (JFloat f) = (f \<noteq> Finite 0)"
| "truthy (JStr s) = (s \<noteq> [])"
| "truthy (JList xs) = (xs \<noteq> [])"
| "truthy (JObj kvs) = (kvs \<noteq> [])"

definition py_or :: "json \<Rightarrow> json \<Rightarrow> json" where
  "py_or a b = (if truthy a then a else b)"

definition dict_get :: "(string \<times> json) list \<Rightarrow> string \<Rightarrow> json" where
  "dict_get kvs k = (case map_of kvs k of None \<Rightarrow> JNull | Some v \<Rightarrow> v)"

definition opt_str :: "string option \<Rightarrow> json" where
  "opt_str x = (case x of None \<Rightarrow> JNull | Some s \<Rightarrow> JStr s)"

fun is_dict :: "json \<Rightarrow> bool" where
  "is_dict (JObj kvs) = True"
| "is_dict _ = False"

text \<open>
  Exceptions. \<^verbatim>\<open>SystemExit\<close> carries a message or an exit code; every other exception is
  recorded by its class name.
\<close>

datatype exit_arg = Msg string | Code int

datatype exn = SystemExit exit_arg | PyError string

definition str_int :: "int \<Rightarrow> string" where
  "str_int i = (if i < 0 then CHR ''-'' # str_nat (nat (- i)) else str_nat (nat i))"

fun str_exit :: "exit_arg \<Rightarrow> string" where
  "str_exit (Msg m) = m"
| "str_exit (Code c) = str_int c"

text \<open>
  The library functions the program calls and the source does not contain. They are
  parameters of the model: \<^verbatim>\<open>json.loads\<close>, \<^verbatim>\<open>json.dumps\<close> with its \<^verbatim>\<open>indent\<close>, \<^verbatim>\<open>repr\<close>,
  \<^verbatim>\<open>bytes.decode("utf-8")\<close> (\<open>None\<close> is a \<^verbatim>\<open>UnicodeDecodeError\<close>), \<^verbatim>\<open>int\<close> on a string (\<open>None\<close>
  is a \<^verbatim>\<open>ValueError\<close>), and the HTML page that the HTTP server's base class sends with an
  error status and message. \<^verbatim>\<open>json.loads\<close> fails with a \<^verbatim>\<open>JSONDecodeError\<close>, which the
  program catches and whose text it may print, or with another exception (a number
  beyond the digit limit is a plain \<^verbatim>\<open>ValueError\<close>, deep nesting a \<^verbatim>\<open>RecursionError\<close>), which
  it does not catch.
\<close>

datatype loads_error = JSONDecodeError string | LoadsRaised string

record pylib =
  json_loads :: "string \<Rightarrow> loads_error + json"
  json_dumps :: "nat option \<Rightarrow> json \<Rightarrow> string"
  py_repr :: "json \<Rightarrow> string"
  utf8_decode :: "string \<Rightarrow> string option"
  py_int :: "string \<Rightarrow> int option"
  error_page :: "nat \<Rightarrow> string \<Rightarrow> string"

text \<open>\<^verbatim>\<open>str(x)\<close>, and \<^verbatim>\<open>x\<close> inside an f-string: a string is itself, anything else its \<^verbatim>\<open>repr\<close>.\<close>

definition py_str :: "pylib \<Rightarrow> json \<Rightarrow> string" where
  "py_str lib v = (case v of JStr s \<Rightarrow> s | _ \<Rightarrow> py_repr lib v)"

section \<open>The provider and the synthesis primitive\<close>

text \<open>
  The \<^verbatim>\<open>requests\<close> library is the transport: a request is sent and a response comes
  back, or the call raises. \<open>resp_json\<close> is what \<^verbatim>\<open>response.json()\<close> returns, \<open>None\<close>
  when it raises \<^verbatim>\<open>ValueError\<close>.
\<close>

record get_call =
  get_url :: string
  get_headers :: "(string \<times> string) list"
  get_timeout :: nat

record post_call =
  post_url :: string
  post_headers :: "(string \<times> string) list"
  post_params :: "(string \<times> json) list"
  post_json :: "(string \<times> json) list"
  post_timeout :: nat

record response =
  resp_ok :: bool
  resp_status_code :: nat
  resp_json :: "json option"
  resp_text :: string
  resp_content :: string

record requests =
  requests_get :: "get_call \<Rightarrow> exn + response"
  requests_post :: "post_call \<Rightarrow> exn + response"

text \<open>The arguments of one call of \<^verbatim>\<open>synthesize_bytes\<close>.\<close>

record synth_args =
  sa_api_key :: string
  sa_voice_id :: json
  sa_text :: string
  sa_model_id :: json
  sa_output_format :: json
  sa_enable_logging :: bool
  sa_voice_settings :: json

text \<open>
  What a run does besides returning: lines printed, requests sent to the provider, calls
  of the synthesis primitive, files written and programs run, in the order they happen. A
  function with effects returns its result, or the exception it raised, with that trace.
\<close>

datatype event =
    Printed string
  | HttpGet get_call
  | HttpPost post_call
  | SynthCall synth_args
  | WroteFile string string
  | Ran "string list"

type_synonym 'a res = "(exn + 'a) \<times> event list"

definition then_res :: "'a res \<Rightarrow> ('a \<Rightarrow> 'b res) \<Rightarrow> 'b res" where
  "then_res m f =
     (case m of
        (Inl e, tr) \<Rightarrow> (Inl e, tr)
      | (Inr x, tr) \<Rightarrow> (case f x of (r, tr') \<Rightarrow> (r, tr @ tr')))"

definition BASE_URL :: string where
  "BASE_URL = ''https://api.elevenlabs.io/v1''"

text \<open>\<^verbatim>\<open>get_requests\<close>: the import fails when the library is not installed.\<close>

definition get_requests :: "requests option \<Rightarrow> exn + requests" where
  "get_requests rq =
     (case rq of
        None \<Rightarrow> Inl (SystemExit (Msg
          (''Missing dependency: requests. Install with '' @ [CHR 0x60] @
           ''python -m pip install requests'' @ [CHR 0x60] @ ''.'')))
      | Some r \<Rightarrow> Inr r)"

definition request_json_or_text :: "pylib \<Rightarrow> response \<Rightarrow> string" where
  "request_json_or_text lib r =
     (case resp_json r of Some j \<Rightarrow> json_dumps lib (Some 2) j | None \<Rightarrow> resp_text r)"

text \<open>The query parameters and the JSON body that \<^verbatim>\<open>synthesize_bytes\<close> builds.\<close>

definition synth_params :: "json \<Rightarrow> bool \<Rightarrow> (string \<times> json) list" where
  "synth_params output_format enable_logging =
     (if truthy output_format then [(''output_format'', output_format)] else []) @
     (if \<not> enable_logging then [(''enable_logging'', JStr ''false'')] else [])"

definition synth_payload :: "string \<Rightarrow> json \<Rightarrow> json \<Rightarrow> (string \<times> json) list" where
  "synth_payload text model_id voice_settings =
     [(''text'', JStr text)] @
     (if truthy model_id then [(''model_id'', model_id)] else []) @
     (if truthy voice_settings then [(''voice_settings'', voice_settings)] else [])"

definition synth_post_call :: "pylib \<Rightarrow> synth_args \<Rightarrow> post_call" where
  "synth_post_call lib a =
     \<lparr>post_url = BASE_URL @ ''/text-to-speech/'' @ py_str lib (sa_voice_id a),
      post_headers =
        [(''xi-api-key'', sa_api_key a),
         (''Content-Type'', ''application/json''),
         (''Accept'', ''*/*'')],
      post_params = synth_params (sa_output_format a) (sa_enable_logging a),
      post_json = synth_payload (sa_text a) (sa_model_id a) (sa_voice_settings a),
      post_timeout = 120\<rparr>"

definition synthesize_bytes :: "pylib \<Rightarrow> requests option \<Rightarrow> synth_args \<Rightarrow> string res" where
  "synthesize_bytes lib rq a =
     (case get_requests rq of
        Inl e \<Rightarrow> (Inl e, [SynthCall a])
      | Inr r \<Rightarrow>
          (let call = synth_post_call lib a
           in case requests_post r call of
                Inl e \<Rightarrow> (Inl e, [SynthCall a, HttpPost call])
              | Inr resp \<Rightarrow>
                  if \<not> resp_ok resp
                  then (Inl (SystemExit (Msg
                          (''TTS request failed ('' @ str_nat (resp_status_code resp) @ ''): '' @
                           request_json_or_text lib resp))),
                        [SynthCall a, HttpPost call])
                  else (Inr (resp_content resp), [SynthCall a, HttpPost call])))"

section \<open>The gateway\<close>

text \<open>
  \<^verbatim>\<open>ServerConfig\<close>, with the types its constructor declares. The voice map is the
  dictionary that \<^verbatim>\<open>load_voice_map\<close> builds.
\<close>

record server_config =
  cfg_api_key :: string
  cfg_default_voice_id :: "string option"
  cfg_voice_map :: "string \<rightharpoonup> string"
  cfg_output_format :: "string option"
  cfg_model_id :: "string option"
  cfg_enable_logging :: bool
  cfg_cors_origin :: string

text \<open>
  What a handler sees of a request: the path, the \<^verbatim>\<open>Content-Length\<close> header when there
  is one, and the bytes that can be read from the connection. What it sends back: a
  status, the headers in the order they are sent, and the body.
\<close>

record http_request =
  req_path :: string
  req_content_length :: "string option"
  req_rfile :: string

record http_reply =
  reply_status :: nat
  reply_headers :: "(string \<times> string) list"
  reply_body :: string

definition send_json :: "pylib \<Rightarrow> server_config \<Rightarrow> nat \<Rightarrow> (string \<times> json) list \<Rightarrow> http_reply" where
  "send_json lib cfg status payload =
     (let body = json_dumps lib None (JObj payload)
      in \<lparr>reply_status = status,
          reply_headers =
            [(''Content-Type'', ''application/json''),
             (''Content-Length'', str_nat (length body)),
             (''Access-Control-Allow-Origin'', cfg_cors_origin cfg)],
          reply_body = body\<rparr>)"

definition send_audio :: "server_config \<Rightarrow> string \<Rightarrow> http_reply" where
  "send_audio cfg audio =
     \<lparr>reply_status = 200,
      reply_headers =
        [(''Content-Type'', ''audio/mpeg''),
         (''Content-Length'', str_nat (length audio)),
         (''Access-Control-Allow-Origin'', cfg_cors_origin cfg)],
      reply_body = audio\<rparr>"

definition do_OPTIONS :: "server_config \<Rightarrow> http_request \<Rightarrow> http_reply res" where
  "do_OPTIONS cfg req =
     (Inr \<lparr>reply_status = 204,
           reply_headers =
             [(''Access-Control-Allow-Origin'', cfg_cors_origin cfg),
              (''Access-Control-Allow-Methods'', ''POST, OPTIONS''),
              (''Access-Control-Allow-Headers'', ''Content-Type'')],
           reply_body = []\<rparr>, [])"

text \<open>\<^verbatim>\<open>rfile.read(n)\<close>: the next \<open>n\<close> bytes, everything up to the end when \<open>n\<close> is negative.\<close>

definition rfile_read :: "string \<Rightarrow> int \<Rightarrow> string" where
  "rfile_read stream n = (if n < 0 then stream else take (nat n) stream)"

text \<open>
  Lines 290 to 296 of \<^verbatim>\<open>do_POST\<close>: the body is read and parsed. \<open>Inr None\<close> is the
  \<^verbatim>\<open>JSONDecodeError\<close> that the handler catches; the other exceptions leave the handler,
  and no reply is sent.
\<close>

definition read_json_body :: "pylib \<Rightarrow> http_request \<Rightarrow> exn + json option" where
  "read_json_body lib req =
     (case py_int lib (case req_content_length req of None \<Rightarrow> ''0'' | Some h \<Rightarrow> h) of
        None \<Rightarrow> Inl (PyError ''ValueError'')
      | Some len \<Rightarrow>
          (let raw = (if len \<noteq> 0 then rfile_read (req_rfile req) len else [])
           in case utf8_decode lib raw of
                None \<Rightarrow> Inl (PyError ''UnicodeDecodeError'')
              | Some s \<Rightarrow>
                  (case json_loads lib (if s = [] then ''{}'' else s) of
                     Inl (JSONDecodeError err) \<Rightarrow> Inr None
                   | Inl (LoadsRaised e) \<Rightarrow> Inl (PyError e)
                   | Inr payload \<Rightarrow> Inr (Some payload))))"

definition no_voice_message :: string where
  "no_voice_message =
     ''No voice_id resolved. Provide voice_id, '' @
     ''set ELEVENLABS_VOICE_ID, or map name via ELEVENLABS_VOICE_MAP.''"

text \<open>
  Lines 298 to 341 of \<^verbatim>\<open>do_POST\<close>: what the handler does with the parsed body.
  \<^verbatim>\<open>payload.get\<close> needs a dictionary.
\<close>

definition do_POST_payload ::
  "pylib \<Rightarrow> requests option \<Rightarrow> server_config \<Rightarrow> json \<Rightarrow> http_reply res" where
  "do_POST_payload lib rq cfg body =
     (case body of
        JObj payload \<Rightarrow>
          (let text = py_strip (py_str lib (py_or (dict_get payload ''text'') (JStr [])))
           in if text = []
              then (Inr (send_json lib cfg 400 [(''error'', JStr ''Missing text'')]), [])
              else
                (let name = py_strip (py_str lib
                       (py_or (py_or (dict_get payload ''name'') (dict_get payload ''speaker''))
                          (JStr [])));
                     voice_id = py_strip (py_str lib (py_or (dict_get payload ''voice_id'') (JStr [])));
                     voice_id' =
                       (if voice_id = []
                        then (case cfg_voice_map cfg (py_lower name) of None \<Rightarrow> [] | Some v \<Rightarrow> v)
                        else voice_id);
                     voice_id'' =
                       (if voice_id' = []
                        then (case cfg_default_voice_id cfg of None \<Rightarrow> [] | Some d \<Rightarrow> d)
                        else voice_id')
                 in if voice_id'' = []
                    then (Inr (send_json lib cfg 400 [(''error'', JStr no_voice_message)]), [])
                    else
                      (let model_id = py_or (dict_get payload ''model_id'') (opt_str (cfg_model_id cfg));
                           output_format =
                             py_or (dict_get payload ''output_format'') (opt_str (cfg_output_format cfg));
                           voice_settings = dict_get payload ''voice_settings''
                       in if voice_settings \<noteq> JNull \<and> \<not> is_dict voice_settings
                          then (Inr (send_json lib cfg 400
                                  [(''error'', JStr ''voice_settings must be an object'')]), [])
                          else
                            (case synthesize_bytes lib rq
                                    \<lparr>sa_api_key = cfg_api_key cfg,
                                     sa_voice_id = JStr voice_id'',
                                     sa_text = text,
                                     sa_model_id = model_id,
                                     sa_output_format = output_format,
                                     sa_enable_logging = cfg_enable_logging cfg,
                                     sa_voice_settings = voice_settings\<rparr> of
                               (Inl (SystemExit a), tr) \<Rightarrow>
                                 (Inr (send_json lib cfg 502 [(''error'', JStr (str_exit a))]), tr)
                             | (Inl e, tr) \<Rightarrow> (Inl e, tr)
                             | (Inr audio, tr) \<Rightarrow> (Inr (send_audio cfg audio), tr)))))
      | _ \<Rightarrow> (Inl (PyError ''AttributeError''), []))"

definition do_POST :: "pylib \<Rightarrow> requests option \<Rightarrow> server_config \<Rightarrow> http_request \<Rightarrow> http_reply res" where
  "do_POST lib rq cfg req =
     (if req_path req \<noteq> ''/tts''
      then (Inr (send_json lib cfg 404 [(''error'', JStr ''Not found'')]), [])
      else
        case read_json_body lib req of
          Inl e \<Rightarrow> (Inl e, [])
        | Inr None \<Rightarrow> (Inr (send_json lib cfg 400 [(''error'', JStr ''Invalid JSON'')]), [])
        | Inr (Some body) \<Rightarrow> do_POST_payload lib rq cfg body)"

text \<open>
  How a request reaches these methods is the work of the base class of the handler,
  \<^verbatim>\<open>BaseHTTPRequestHandler\<close> of the standard library: a parsed request with the method
  \<open>command\<close> is given to the method \<^verbatim>\<open>do_\<close>\<open>command\<close> of the handler class, and when the class
  has none the base class answers with \<^verbatim>\<open>send_error\<close>, status 501. \<^verbatim>\<open>TTSRequestHandler\<close>
  defines \<^verbatim>\<open>do_POST\<close> and \<^verbatim>\<open>do_OPTIONS\<close> and nothing else. The reply of \<^verbatim>\<open>send_error\<close> has no
  CORS header, and its page is left out for the method \<^verbatim>\<open>HEAD\<close>.
\<close>

definition send_error :: "pylib \<Rightarrow> string \<Rightarrow> nat \<Rightarrow> string \<Rightarrow> http_reply" where
  "send_error lib command code message =
     (let body = error_page lib code message
      in \<lparr>reply_status = code,
          reply_headers =
            [(''Connection'', ''close''),
             (''Content-Type'', ''text/html;charset=utf-8''),
             (''Content-Length'', str_nat (length body))],
          reply_body = (if command \<noteq> ''HEAD'' then body else [])\<rparr>)"

definition handle_method ::
  "pylib \<Rightarrow> requests option \<Rightarrow> server_config \<Rightarrow> string \<Rightarrow> http_request \<Rightarrow> http_reply res" where
  "handle_method lib rq cfg command req =
     (if command = ''POST'' then do_POST lib rq cfg req
      else if command = ''OPTIONS'' then do_OPTIONS cfg req
      else (Inr (send_error lib command 501
                   (''Unsupported method ('' @ py_repr lib (JStr command) @ '')'')), []))"

section \<open>The command line\<close>

text \<open>
  The parsed arguments (\<^verbatim>\<open>argparse.Namespace\<close>) and what the process reads from its
  surroundings: the environment variables as they are once \<^verbatim>\<open>load_dotenv\<close> has run, the
  file system, standard input, the platform, the programs installed on it, and whether
  an address can be bound (\<open>None\<close>) or binding raises.
\<close>

record cli_args =
  arg_list_voices :: bool
  arg_serve :: bool
  arg_host :: string
  arg_port :: int
  arg_cors_origin :: string
  arg_voice_id :: "string option"
  arg_voice_name :: "string option"
  arg_text :: "string option"
  arg_text_file :: "string option"
  arg_model_id :: "string option"
  arg_output_format :: string
  arg_output :: string
  arg_no_logging :: bool
  arg_no_play :: bool
  arg_voice_settings :: "string option"

record os_env =
  env_api_key :: "string option"
  env_voice_id :: "string option"
  env_voice_map :: "string option"
  env_read_text :: "string \<Rightarrow> exn + string"
  env_stdin_isatty :: bool
  env_stdin :: string
  env_write_bytes :: "string \<Rightarrow> exn option"
  env_platform :: string
  env_has_program :: "string \<Rightarrow> bool"
  env_bind :: "string \<Rightarrow> int \<Rightarrow> exn option"

text \<open>A string that is given: not \<^verbatim>\<open>None\<close> and not empty, as \<^verbatim>\<open>if args.voice_id:\<close> tests it.\<close>

definition given :: "string option \<Rightarrow> bool" where
  "given x = truthy (opt_str x)"

definition get_api_key :: "os_env \<Rightarrow> exn + string" where
  "get_api_key env =
     (case env_api_key env of
        None \<Rightarrow> Inl (SystemExit (Msg ''Set ELEVENLABS_API_KEY in .env (project-local)''))
      | Some k \<Rightarrow>
          if k = [] then Inl (SystemExit (Msg ''Set ELEVENLABS_API_KEY in .env (project-local)''))
          else Inr k)"

definition list_voices :: "pylib \<Rightarrow> requests option \<Rightarrow> string \<Rightarrow> json res" where
  "list_voices lib rq api_key =
     (case get_requests rq of
        Inl e \<Rightarrow> (Inl e, [])
      | Inr r \<Rightarrow>
          (let call = \<lparr>get_url = BASE_URL @ ''/voices'',
                       get_headers = [(''xi-api-key'', api_key), (''Accept'', ''application/json'')],
                       get_timeout = 30\<rparr>
           in case requests_get r call of
                Inl e \<Rightarrow> (Inl e, [HttpGet call])
              | Inr resp \<Rightarrow>
                  if \<not> resp_ok resp
                  then (Inl (SystemExit (Msg
                          (''List voices failed ('' @ str_nat (resp_status_code resp) @ ''): '' @
                           request_json_or_text lib resp))),
                        [HttpGet call])
                  else
                    (case resp_json resp of
                       None \<Rightarrow> (Inl (PyError ''JSONDecodeError''), [HttpGet call])
                     | Some (JObj payload) \<Rightarrow>
                         (Inr (case map_of payload ''voices'' of None \<Rightarrow> JList [] | Some v \<Rightarrow> v),
                          [HttpGet call])
                     | Some _ \<Rightarrow> (Inl (PyError ''AttributeError''), [HttpGet call]))))"

text \<open>
  \<^verbatim>\<open>for voice in voices\<close>: a list gives its elements, a dictionary its keys, a string its
  characters, and nothing else can be iterated.
\<close>

fun py_iter :: "json \<Rightarrow> exn + json list" where
  "py_iter (JList xs) = Inr xs"
| "py_iter (JObj kvs) = Inr (map (\<lambda>kv. JStr (fst kv)) kvs)"
| "py_iter (JStr s) = Inr (map (\<lambda>c. JStr [c]) s)"
| "py_iter _ = Inl (PyError ''TypeError'')"

text \<open>One line of \<^verbatim>\<open>print_voices\<close>; \<^verbatim>\<open>voice.get\<close> needs a dictionary.\<close>

fun voice_line :: "pylib \<Rightarrow> json \<Rightarrow> exn + string" where
  "voice_line lib (JObj voice) =
     (let name = py_or (dict_get voice ''name'') (JStr []);
          voice_id = py_or (dict_get voice ''voice_id'') (JStr []);
          category = py_or (dict_get voice ''category'') (JStr []);
          label = (if truthy category
                   then py_str lib name @ '' ['' @ py_str lib category @ '']''
                   else py_str lib name)
      in Inr (label @ '' - '' @ py_str lib voice_id))"
| "voice_line lib _ = Inl (PyError ''AttributeError'')"

fun print_each :: "pylib \<Rightarrow> json list \<Rightarrow> unit res" where
  "print_each lib [] = (Inr (), [])"
| "print_each lib (v # vs) =
     (case voice_line lib v of
        Inl e \<Rightarrow> (Inl e, [])
      | Inr line \<Rightarrow> (case print_each lib vs of (r, tr) \<Rightarrow> (r, Printed line # tr)))"

definition print_voices :: "pylib \<Rightarrow> json \<Rightarrow> unit res" where
  "print_voices lib voices =
     (case py_iter voices of Inl e \<Rightarrow> (Inl e, []) | Inr vs \<Rightarrow> print_each lib vs)"

text \<open>
  The test of the list comprehension in \<^verbatim>\<open>pick_voice_by_name\<close>:
  \<^verbatim>\<open>query in (voice.get("name") or "").lower()\<close>. Only a string has \<^verbatim>\<open>lower\<close>.
\<close>

fun name_contains :: "string \<Rightarrow> json \<Rightarrow> exn + bool" where
  "name_contains query (JObj voice) =
     (case py_or (dict_get voice ''name'') (JStr []) of
        JStr n \<Rightarrow> Inr (sublist query (py_lower n))
      | _ \<Rightarrow> Inl (PyError ''AttributeError''))"
| "name_contains query _ = Inl (PyError ''AttributeError'')"

fun select_matches :: "string \<Rightarrow> json list \<Rightarrow> exn + json list" where
  "select_matches query [] = Inr []"
| "select_matches query (v # vs) =
     (case name_contains query v of
        Inl e \<Rightarrow> Inl e
      | Inr b \<Rightarrow>
          (case select_matches query vs of
             Inl e \<Rightarrow> Inl e
           | Inr ms \<Rightarrow> Inr (if b then v # ms else ms)))"

definition multiple_matched :: string where
  "multiple_matched = ''Multiple voices matched. Be more specific or use --voice-id.''"

definition pick_voice_by_name :: "pylib \<Rightarrow> json \<Rightarrow> string \<Rightarrow> json res" where
  "pick_voice_by_name lib voices name_query =
     (let query = py_lower (py_strip name_query)
      in case py_iter voices of
           Inl e \<Rightarrow> (Inl e, [])
         | Inr vs \<Rightarrow>
             (case select_matches query vs of
                Inl e \<Rightarrow> (Inl e, [])
              | Inr [] \<Rightarrow>
                  (Inl (SystemExit (Msg
                     (''No voice matched name query: '' @ py_repr lib (JStr name_query)))), [])
              | Inr (m # ms) \<Rightarrow>
                  if length (m # ms) > 1
                  then (case print_voices lib (JList (m # ms)) of
                          (Inl e, tr) \<Rightarrow> (Inl e, Printed multiple_matched # tr)
                        | (Inr u, tr) \<Rightarrow> (Inl (SystemExit (Code 1)), Printed multiple_matched # tr))
                  else (Inr m, [])))"

text \<open>\<^verbatim>\<open>voices[0]\<close> and \<^verbatim>\<open>voice["voice_id"]\<close> on a value of any type.\<close>

fun py_first :: "json \<Rightarrow> exn + json" where
  "py_first (JList (x # xs)) = Inr x"
| "py_first (JList []) = Inl (PyError ''IndexError'')"
| "py_first (JStr (c # cs)) = Inr (JStr [c])"
| "py_first (JStr []) = Inl (PyError ''IndexError'')"
| "py_first (JObj kvs) = Inl (PyError ''KeyError'')"
| "py_first _ = Inl (PyError ''TypeError'')"

fun py_item :: "json \<Rightarrow> string \<Rightarrow> exn + json" where
  "py_item (JObj kvs) k = (case map_of kvs k of None \<Rightarrow> Inl (PyError ''KeyError'') | Some v \<Rightarrow> Inr v)"
| "py_item _ k = Inl (PyError ''TypeError'')"

definition first_voice_note :: "pylib \<Rightarrow> json \<Rightarrow> json \<Rightarrow> string" where
  "first_voice_note lib name voice_id =
     ''Using first available voice: '' @ py_str lib name @ '' ('' @ py_str lib voice_id @ '')''"

definition resolve_voice_id ::
  "pylib \<Rightarrow> requests option \<Rightarrow> os_env \<Rightarrow> string \<Rightarrow> cli_args \<Rightarrow> json res" where
  "resolve_voice_id lib rq env api_key args =
     (if given (arg_voice_id args) then (Inr (opt_str (arg_voice_id args)), [])
      else if given (env_voice_id env) then (Inr (opt_str (env_voice_id env)), [])
      else
        then_res (list_voices lib rq api_key) (\<lambda>voices.
          if given (arg_voice_name args)
          then then_res (pick_voice_by_name lib voices (the (arg_voice_name args)))
                 (\<lambda>voice. (py_item voice ''voice_id'', []))
          else if \<not> truthy voices
          then (Inl (SystemExit (Msg ''No voices returned. Check your ElevenLabs account.'')), [])
          else
            (case py_first voices of
               Inl e \<Rightarrow> (Inl e, [])
             | Inr (JObj first) \<Rightarrow>
                 (let voice_id = dict_get first ''voice_id'';
                      name = py_or (dict_get first ''name'') (JStr ''unknown'')
                  in if \<not> truthy voice_id
                     then (Inl (SystemExit (Msg ''First voice is missing a voice_id.'')), [])
                     else (Inr voice_id, [Printed (first_voice_note lib name voice_id)]))
             | Inr _ \<Rightarrow> (Inl (PyError ''AttributeError''), []))))"

definition resolve_text :: "os_env \<Rightarrow> cli_args \<Rightarrow> exn + string" where
  "resolve_text env args =
     (if given (arg_text args) then Inr (the (arg_text args))
      else if given (arg_text_file args)
      then (case env_read_text env (the (arg_text_file args)) of
              Inl e \<Rightarrow> Inl e
            | Inr content \<Rightarrow> Inr (py_strip content))
      else if \<not> env_stdin_isatty env then Inr (py_strip (env_stdin env))
      else Inl (SystemExit (Msg ''Provide --text, --text-file, or pipe text via stdin.'')))"

definition synthesize ::
  "pylib \<Rightarrow> requests option \<Rightarrow> os_env \<Rightarrow> synth_args \<Rightarrow> string \<Rightarrow> unit res" where
  "synthesize lib rq env a output_path =
     then_res (synthesize_bytes lib rq a) (\<lambda>audio.
       case env_write_bytes env output_path of
         Some e \<Rightarrow> (Inl e, [])
       | None \<Rightarrow> (Inr (), [WroteFile output_path audio, Printed (''Saved audio to '' @ output_path)]))"

definition run_program :: "os_env \<Rightarrow> string \<Rightarrow> string list \<Rightarrow> unit res" where
  "run_program env prog argv =
     (if env_has_program env prog then (Inr (), [Ran (prog # argv)])
      else (Inl (PyError ''FileNotFoundError''), []))"

definition play_audio :: "os_env \<Rightarrow> string \<Rightarrow> unit res" where
  "play_audio env path =
     (if env_platform env = ''darwin'' then run_program env ''afplay'' [path]
      else if prefix ''linux'' (env_platform env) \<and> env_has_program env ''paplay''
      then run_program env ''paplay'' [path]
      else if prefix ''linux'' (env_platform env) \<and> env_has_program env ''aplay''
      then run_program env ''aplay'' [path]
      else if prefix ''win'' (env_platform env)
      then run_program env ''cmd'' [''/c'', ''start'', [], path]
      else (Inr (), [Printed ''Playback not supported on this platform.'']))"

text \<open>
  \<^verbatim>\<open>load_voice_map\<close>: the voice map of the gateway, from the environment. A later item
  overwrites an earlier one with the same normalised key.
\<close>

definition load_voice_map :: "pylib \<Rightarrow> os_env \<Rightarrow> exn + (string \<rightharpoonup> string)" where
  "load_voice_map lib env =
     (if \<not> given (env_voice_map env) then Inr Map.empty
      else
        case json_loads lib (the (env_voice_map env)) of
          Inl (JSONDecodeError err) \<Rightarrow>
            Inl (SystemExit (Msg (''Invalid ELEVENLABS_VOICE_MAP JSON: '' @ err)))
        | Inl (LoadsRaised e) \<Rightarrow> Inl (PyError e)
        | Inr (JObj payload) \<Rightarrow>
            Inr (foldl (\<lambda>voice_map kv.
                    if snd kv = JNull then voice_map
                    else voice_map(py_lower (py_strip (fst kv)) \<mapsto> py_strip (py_str lib (snd kv))))
                  Map.empty payload)
        | Inr _ \<Rightarrow> Inl (SystemExit (Msg ''ELEVENLABS_VOICE_MAP must be a JSON object'')))"

text \<open>
  \<^verbatim>\<open>serve\<close>: it loads the voice map, resolves a default voice when a voice is named on
  the command line or in the environment, binds the address and prints where it
  listens. From then on the server answers requests until the process is stopped; the
  result stands for that, and holds the values with which \<^verbatim>\<open>ServerConfig\<close> was
  constructed. The default voice id is \<^verbatim>\<open>None\<close> or whatever \<^verbatim>\<open>resolve_voice_id\<close> returned.
\<close>

record server_start =
  start_host :: string
  start_port :: int
  start_api_key :: string
  start_default_voice_id :: json
  start_voice_map :: "string \<rightharpoonup> string"
  start_output_format :: string
  start_model_id :: "string option"
  start_enable_logging :: bool
  start_cors_origin :: string

definition serve ::
  "pylib \<Rightarrow> requests option \<Rightarrow> os_env \<Rightarrow> string \<Rightarrow> cli_args \<Rightarrow> server_start res" where
  "serve lib rq env api_key args =
     (case load_voice_map lib env of
        Inl e \<Rightarrow> (Inl e, [])
      | Inr voice_map \<Rightarrow>
          then_res
            (if given (arg_voice_id args) \<or> given (arg_voice_name args) \<or> given (env_voice_id env)
             then resolve_voice_id lib rq env api_key args
             else (Inr JNull, []))
            (\<lambda>default_voice_id.
               case env_bind env (arg_host args) (arg_port args) of
                 Some e \<Rightarrow> (Inl e, [])
               | None \<Rightarrow>
                   (Inr \<lparr>start_host = arg_host args,
                         start_port = arg_port args,
                         start_api_key = api_key,
                         start_default_voice_id = default_voice_id,
                         start_voice_map = voice_map,
                         start_output_format = arg_output_format args,
                         start_model_id = arg_model_id args,
                         start_enable_logging = (\<not> arg_no_logging args),
                         start_cors_origin = arg_cors_origin args\<rparr>,
                    [Printed (''TTS server listening on http://'' @ arg_host args @ '':'' @
                              str_int (arg_port args) @ ''/tts'')])))"

text \<open>
  The configuration under which the handlers then run, when the default voice id is of
  the type that \<^verbatim>\<open>ServerConfig\<close> declares for it.
\<close>

definition server_config_of :: "server_start \<Rightarrow> server_config option" where
  "server_config_of st =
     (let cfg = (\<lambda>d.
            \<lparr>cfg_api_key = start_api_key st,
             cfg_default_voice_id = d,
             cfg_voice_map = start_voice_map st,
             cfg_output_format = Some (start_output_format st),
             cfg_model_id = start_model_id st,
             cfg_enable_logging = start_enable_logging st,
             cfg_cors_origin = start_cors_origin st\<rparr>)
      in case start_default_voice_id st of
           JNull \<Rightarrow> Some (cfg None)
         | JStr d \<Rightarrow> Some (cfg (Some d))
         | _ \<Rightarrow> None)"

text \<open>\<^verbatim>\<open>main\<close>, after \<^verbatim>\<open>parse_args\<close>.\<close>

datatype main_result = Finished | Serving server_start

definition main :: "pylib \<Rightarrow> requests option \<Rightarrow> os_env \<Rightarrow> cli_args \<Rightarrow> main_result res" where
  "main lib rq env args =
     (case get_api_key env of
        Inl e \<Rightarrow> (Inl e, [])
      | Inr api_key \<Rightarrow>
          if arg_list_voices args
          then then_res (list_voices lib rq api_key) (\<lambda>voices.
                 then_res (print_voices lib voices) (\<lambda>u. (Inr Finished, [])))
          else if arg_serve args
          then then_res (serve lib rq env api_key args) (\<lambda>started. (Inr (Serving started), []))
          else
            then_res (resolve_voice_id lib rq env api_key args) (\<lambda>voice_id.
            then_res (resolve_text env args, []) (\<lambda>text.
            then_res
              (if given (arg_voice_settings args)
               then (case json_loads lib (the (arg_voice_settings args)) of
                       Inl (JSONDecodeError err) \<Rightarrow>
                         (Inl (SystemExit (Msg (''Invalid --voice-settings JSON: '' @ err))), [])
                     | Inl (LoadsRaised e) \<Rightarrow> (Inl (PyError e), [])
                     | Inr v \<Rightarrow> (Inr v, []))
               else (Inr JNull, []))
              (\<lambda>voice_settings.
            then_res
              (synthesize lib rq env
                 \<lparr>sa_api_key = api_key,
                  sa_voice_id = voice_id,
                  sa_text = text,
                  sa_model_id = opt_str (arg_model_id args),
                  sa_output_format = JStr (arg_output_format args),
                  sa_enable_logging = (\<not> arg_no_logging args),
                  sa_voice_settings = voice_settings\<rparr>
                 (arg_output args))
              (\<lambda>u. if \<not> arg_no_play args
                    then then_res (play_audio env (arg_output args)) (\<lambda>u. (Inr Finished, []))
                    else (Inr Finished, []))))))"

section \<open>Vocabulary of the properties\<close>

text \<open>
  The fields of a request body as the handler reads them: the text and the voice id
  trimmed, the speaker name (\<open>name\<close>, else \<open>speaker\<close>) trimmed and lower-cased.
\<close>

definition body_text :: "pylib \<Rightarrow> (string \<times> json) list \<Rightarrow> string" where
  "body_text lib payload = py_strip (py_str lib (py_or (dict_get payload ''text'') (JStr [])))"

definition body_voice_id :: "pylib \<Rightarrow> (string \<times> json) list \<Rightarrow> string" where
  "body_voice_id lib payload = py_strip (py_str lib (py_or (dict_get payload ''voice_id'') (JStr [])))"

definition speaker_key :: "pylib \<Rightarrow> (string \<times> json) list \<Rightarrow> string" where
  "speaker_key lib payload =
     py_lower (py_strip (py_str lib
       (py_or (py_or (dict_get payload ''name'') (dict_get payload ''speaker'')) (JStr []))))"

text \<open>
  The resolution chain of the gateway in the words of the specification: the first
  non-empty one of the voice id of the body, the voice map's entry for the speaker name,
  and the configured default; the empty string when there is none.
\<close>

fun first_nonempty :: "string list \<Rightarrow> string" where
  "first_nonempty [] = []"
| "first_nonempty (x # xs) = (if x \<noteq> [] then x else first_nonempty xs)"

definition spec_voice_chain :: "pylib \<Rightarrow> server_config \<Rightarrow> (string \<times> json) list \<Rightarrow> string" where
  "spec_voice_chain lib cfg payload =
     first_nonempty
       [body_voice_id lib payload,
        (case cfg_voice_map cfg (speaker_key lib payload) of None \<Rightarrow> [] | Some v \<Rightarrow> v),
        (case cfg_default_voice_id cfg of None \<Rightarrow> [] | Some d \<Rightarrow> d)]"

text \<open>A \<open>voice_settings\<close> field that the handler accepts: absent, \<^verbatim>\<open>null\<close> or an object.\<close>

definition settings_ok :: "(string \<times> json) list \<Rightarrow> bool" where
  "settings_ok payload \<longleftrightarrow>
     dict_get payload ''voice_settings'' = JNull \<or> is_dict (dict_get payload ''voice_settings'')"

text \<open>
  The arguments with which the handler calls the synthesis primitive once a voice id is
  resolved, and the reply it makes of the outcome.
\<close>

definition gateway_args :: "pylib \<Rightarrow> server_config \<Rightarrow> (string \<times> json) list \<Rightarrow> synth_args" where
  "gateway_args lib cfg payload =
     \<lparr>sa_api_key = cfg_api_key cfg,
      sa_voice_id = JStr (spec_voice_chain lib cfg payload),
      sa_text = body_text lib payload,
      sa_model_id = py_or (dict_get payload ''model_id'') (opt_str (cfg_model_id cfg)),
      sa_output_format = py_or (dict_get payload ''output_format'') (opt_str (cfg_output_format cfg)),
      sa_enable_logging = cfg_enable_logging cfg,
      sa_voice_settings = dict_get payload ''voice_settings''\<rparr>"

definition gateway_reply :: "pylib \<Rightarrow> server_config \<Rightarrow> string res \<Rightarrow> http_reply res" where
  "gateway_reply lib cfg outcome =
     (case outcome of
        (Inl (SystemExit a), tr) \<Rightarrow> (Inr (send_json lib cfg 502 [(''error'', JStr (str_exit a))]), tr)
      | (Inl e, tr) \<Rightarrow> (Inl e, tr)
      | (Inr audio, tr) \<Rightarrow> (Inr (send_audio cfg audio), tr))"

text \<open>
  A catalog entry as the specification's data model has it: an object whose name, when
  it has one, is a string. \<open>voice_name\<close> is that name, empty when there is none.
\<close>

fun is_voice :: "json \<Rightarrow> bool" where
  "is_voice (JObj voice) =
     (case py_or (dict_get voice ''name'') (JStr []) of JStr n \<Rightarrow> True | _ \<Rightarrow> False)"
| "is_voice _ = False"

fun voice_name :: "json \<Rightarrow> string" where
  "voice_name (JObj voice) =
     (case py_or (dict_get voice ''name'') (JStr []) of JStr n \<Rightarrow> n | _ \<Rightarrow> [])"
| "voice_name _ = []"

text \<open>
  Name matching in the words of the specification: the voices whose name, lower-cased,
  contains the query trimmed and lower-cased.
\<close>

definition spec_matches :: "string \<Rightarrow> json list \<Rightarrow> json list" where
  "spec_matches name_query vs =
     filter (\<lambda>v. sublist (py_lower (py_strip name_query)) (py_lower (voice_name v))) vs"

text \<open>The line that \<^verbatim>\<open>print_voices\<close> prints for a catalog entry.\<close>

definition printed_line :: "pylib \<Rightarrow> json \<Rightarrow> string" where
  "printed_line lib v = (case voice_line lib v of Inr line \<Rightarrow> line | Inl e \<Rightarrow> [])"

section \<open>Example inputs\<close>

text \<open>
  Concrete inputs for the examples that accompany the properties. \<open>example_lib\<close> stands for
  the Python library on the inputs the examples use: it parses the six request bodies
  below, writes an error envelope as \<^verbatim>\<open>json.dumps\<close> does, gives the \<^verbatim>\<open>repr\<close> of a plain
  string, decodes ASCII bytes and reads a decimal number; of the error page it keeps the
  line with the message.
\<close>

definition quoted :: "string \<Rightarrow> string" where
  "quoted s = CHR 0x22 # s @ [CHR 0x22]"

definition body_named :: string where
  "body_named =
     ''{'' @ quoted ''text'' @ '': '' @ quoted ''hi'' @ '', '' @
     quoted ''name'' @ '': '' @ quoted '' Bob '' @ ''}''"

definition body_bad_settings :: string where
  "body_bad_settings =
     ''{'' @ quoted ''text'' @ '': '' @ quoted ''hi'' @ '', '' @
     quoted ''voice_settings'' @ '': '' @ quoted ''bad'' @ ''}''"

definition body_empty_text :: string where
  "body_empty_text = ''{'' @ quoted ''text'' @ '': '' @ quoted [] @ ''}''"

definition body_ann_bob :: string where
  "body_ann_bob =
     ''{'' @ quoted ''text'' @ '': '' @ quoted ''hi'' @ '', '' @
     quoted ''name'' @ '': '' @ quoted ''Ann'' @ '', '' @
     quoted ''speaker'' @ '': '' @ quoted ''Bob'' @ ''}''"

definition body_ann_cid :: string where
  "body_ann_cid =
     ''{'' @ quoted ''text'' @ '': '' @ quoted ''hi'' @ '', '' @
     quoted ''name'' @ '': '' @ quoted ''Ann'' @ '', '' @
     quoted ''speaker'' @ '': '' @ quoted ''Cid'' @ ''}''"

definition body_speaker_only :: string where
  "body_speaker_only =
     ''{'' @ quoted ''text'' @ '': '' @ quoted ''hi'' @ '', '' @
     quoted ''speaker'' @ '': '' @ quoted ''Bob'' @ ''}''"

definition example_loads :: "string \<Rightarrow> loads_error + json" where
  "example_loads s =
     (if s = ''{}'' then Inr (JObj [])
      else if s = body_named
      then Inr (JObj [(''text'', JStr ''hi''), (''name'', JStr '' Bob '')])
      else if s = body_bad_settings
      then Inr (JObj [(''text'', JStr ''hi''), (''voice_settings'', JStr ''bad'')])
      else if s = body_empty_text
      then Inr (JObj [(''text'', JStr [])])
      else if s = body_ann_bob
      then Inr (JObj [(''text'', JStr ''hi''), (''name'', JStr ''Ann''), (''speaker'', JStr ''Bob'')])
      else if s = body_ann_cid
      then Inr (JObj [(''text'', JStr ''hi''), (''name'', JStr ''Ann''), (''speaker'', JStr ''Cid'')])
      else if s = body_speaker_only
      then Inr (JObj [(''text'', JStr ''hi''), (''speaker'', JStr ''Bob'')])
      else Inl (JSONDecodeError ''Expecting value: line 1 column 1 (char 0)''))"

definition example_dumps :: "nat option \<Rightarrow> json \<Rightarrow> string" where
  "example_dumps indent v =
     (case v of
        JObj [(k, JStr m)] \<Rightarrow> ''{'' @ quoted k @ '': '' @ quoted m @ ''}''
      | _ \<Rightarrow> ''null'')"

definition example_repr :: "json \<Rightarrow> string" where
  "example_repr v = (case v of JStr s \<Rightarrow> CHR 0x27 # s @ [CHR 0x27] | _ \<Rightarrow> ''None'')"

definition example_int :: "string \<Rightarrow> int option" where
  "example_int s =
     (if s \<noteq> [] \<and> list_all (\<lambda>c. 48 \<le> (of_char c :: nat) \<and> (of_char c :: nat) \<le> 57) s
      then Some (foldl (\<lambda>n c. 10 * n + int (of_char c - 48)) 0 s)
      else None)"

definition example_lib :: pylib where
  "example_lib =
     \<lparr>json_loads = example_loads,
      json_dumps = example_dumps,
      py_repr = example_repr,
      utf8_decode = Some,
      py_int = example_int,
      error_page = (\<lambda>code message. ''<p>Message: '' @ message @ ''.</p>'')\<rparr>"

text \<open>A request to the synthesis endpoint with the given body.\<close>

definition post_tts :: "string \<Rightarrow> http_request" where
  "post_tts body =
     \<lparr>req_path = ''/tts'',
      req_content_length = Some (str_nat (length body)),
      req_rfile = body\<rparr>"

text \<open>
  Two gateway configurations: one with a voice map and a default voice, one with
  neither.
\<close>

definition example_cfg :: server_config where
  "example_cfg =
     \<lparr>cfg_api_key = ''key'',
      cfg_default_voice_id = Some ''v-default'',
      cfg_voice_map = [''bob'' \<mapsto> ''v-bob''],
      cfg_output_format = Some ''mp3_44100_128'',
      cfg_model_id = None,
      cfg_enable_logging = True,
      cfg_cors_origin = ''*''\<rparr>"

definition bare_cfg :: server_config where
  "bare_cfg =
     \<lparr>cfg_api_key = ''key'',
      cfg_default_voice_id = None,
      cfg_voice_map = Map.empty,
      cfg_output_format = Some ''mp3_44100_128'',
      cfg_model_id = None,
      cfg_enable_logging = True,
      cfg_cors_origin = ''*''\<rparr>"

text \<open>
  A provider with two voices in its catalog, Adam and Nadia, that answers every
  synthesis request with the same audio.
\<close>

definition adam :: json where
  "adam = JObj [(''voice_id'', JStr ''v-adam''), (''name'', JStr ''Adam''), (''category'', JStr ''premade'')]"

definition nadia :: json where
  "nadia = JObj [(''voice_id'', JStr ''v-nadia''), (''name'', JStr ''Nadia'')]"

definition example_requests :: requests where
  "example_requests =
     \<lparr>requests_get = (\<lambda>call. Inr
        \<lparr>resp_ok = True, resp_status_code = 200,
         resp_json = Some (JObj [(''voices'', JList [adam, nadia])]),
         resp_text = [], resp_content = []\<rparr>),
      requests_post = (\<lambda>call. Inr
        \<lparr>resp_ok = True, resp_status_code = 200,
         resp_json = None, resp_text = [], resp_content = ''ID3-audio''\<rparr>)\<rparr>"

text \<open>
  A command line \<^verbatim>\<open>--voice-id v-adam --text-file blank.txt --no-play\<close>, in a directory
  where \<^verbatim>\<open>blank.txt\<close> holds one space and a line break, and the same with no voice
  argument at all.
\<close>

definition example_env :: os_env where
  "example_env =
     \<lparr>env_api_key = Some ''key'',
      env_voice_id = None,
      env_voice_map = None,
      env_read_text = (\<lambda>path. if path = ''blank.txt'' then Inr [CHR '' '', CHR 0x0A]
                               else Inl (PyError ''FileNotFoundError'')),
      env_stdin_isatty = True,
      env_stdin = [],
      env_write_bytes = (\<lambda>path. None),
      env_platform = ''linux'',
      env_has_program = (\<lambda>prog. False),
      env_bind = (\<lambda>host port. None)\<rparr>"

definition blank_file_args :: cli_args where
  "blank_file_args =
     \<lparr>arg_list_voices = False,
      arg_serve = False,
      arg_host = ''127.0.0.1'',
      arg_port = 8000,
      arg_cors_origin = ''*'',
      arg_voice_id = Some ''v-adam'',
      arg_voice_name = None,
      arg_text = None,
      arg_text_file = Some ''blank.txt'',
      arg_model_id = None,
      arg_output_format = ''mp3_44100_128'',
      arg_output = ''out.mp3'',
      arg_no_logging = False,
      arg_no_play = True,
      arg_voice_settings = None\<rparr>"

definition no_voice_args :: cli_args where
  "no_voice_args = blank_file_args\<lparr>arg_voice_id := None\<rparr>"

section \<open>Properties of the synthesis primitive\<close>

lemma synthesize_bytes_trace:
  "snd (synthesize_bytes lib (Some r) a) = [SynthCall a, HttpPost (synth_post_call lib a)]"
  by (simp add: synthesize_bytes_def get_requests_def Let_def split: sum.splits)

text \<open>
  Claim C7. With the transport installed, one call of \<^verbatim>\<open>synthesize_bytes\<close> sends exactly
  one request to the provider. Its JSON body always carries \<open>text\<close>; it carries \<open>model_id\<close>
  exactly when the model id is a true value (for a string: non-empty), and then that
  value; likewise \<open>voice_settings\<close>. The query has \<open>output_format\<close> exactly when the output
  format is a true value, and \<open>enable_logging\<close> exactly when logging is disabled, with the
  value \<open>false\<close>. The body and the query have no other keys.
\<close>

theorem synthesize_bytes_provider_call:
  "snd (synthesize_bytes lib (Some r) a) = [SynthCall a, HttpPost (synth_post_call lib a)]
   \<and> map_of (post_json (synth_post_call lib a)) ''text'' = Some (JStr (sa_text a))
   \<and> map_of (post_json (synth_post_call lib a)) ''model_id'' =
       (if truthy (sa_model_id a) then Some (sa_model_id a) else None)
   \<and> map_of (post_json (synth_post_call lib a)) ''voice_settings'' =
       (if truthy (sa_voice_settings a) then Some (sa_voice_settings a) else None)
   \<and> map_of (post_params (synth_post_call lib a)) ''output_format'' =
       (if truthy (sa_output_format a) then Some (sa_output_format a) else None)
   \<and> map_of (post_params (synth_post_call lib a)) ''enable_logging'' =
       (if sa_enable_logging a then None else Some (JStr ''false''))
   \<and> fst ` set (post_json (synth_post_call lib a)) \<subseteq> {''text'', ''model_id'', ''voice_settings''}
   \<and> fst ` set (post_params (synth_post_call lib a)) \<subseteq> {''output_format'', ''enable_logging''}"
proof -
  have body: "post_json (synth_post_call lib a) =
      synth_payload (sa_text a) (sa_model_id a) (sa_voice_settings a)"
    and query: "post_params (synth_post_call lib a) =
      synth_params (sa_output_format a) (sa_enable_logging a)"
    by (simp_all add: synth_post_call_def)
  show ?thesis
    unfolding body query
    by (simp add: synthesize_bytes_trace synth_post_call_def synth_params_def synth_payload_def)
qed

section \<open>Properties of the gateway\<close>

subsection \<open>The handler, case by case\<close>

lemma do_POST_parsed:
  "req_path req = ''/tts'' \<Longrightarrow> read_json_body lib req = Inr (Some body) \<Longrightarrow>
   do_POST lib rq cfg req = do_POST_payload lib rq cfg body"
  by (simp add: do_POST_def)

lemma first_nonempty3:
  "first_nonempty [a, b, c] = (if a \<noteq> [] then a else if b \<noteq> [] then b else c)"
  by simp

lemma do_POST_payload_cases:
  "do_POST_payload lib rq cfg (JObj payload) =
     (if body_text lib payload = []
      then (Inr (send_json lib cfg 400 [(''error'', JStr ''Missing text'')]), [])
      else if spec_voice_chain lib cfg payload = []
      then (Inr (send_json lib cfg 400 [(''error'', JStr no_voice_message)]), [])
      else if \<not> settings_ok payload
      then (Inr (send_json lib cfg 400 [(''error'', JStr ''voice_settings must be an object'')]), [])
      else gateway_reply lib cfg (synthesize_bytes lib rq (gateway_args lib cfg payload)))"
  unfolding do_POST_payload_def gateway_reply_def gateway_args_def spec_voice_chain_def
    first_nonempty3 settings_ok_def body_text_def body_voice_id_def speaker_key_def
  by (simp add: Let_def)

lemma synthesize_bytes_events:
  "\<exists>tr. snd (synthesize_bytes lib rq a) = SynthCall a # tr
     \<and> (\<forall>e \<in> set tr. e = HttpPost (synth_post_call lib a))"
  by (cases rq) (auto simp add: synthesize_bytes_def get_requests_def Let_def split: sum.splits)

lemma gateway_reply_trace: "snd (gateway_reply lib cfg outcome) = snd outcome"
  by (auto simp add: gateway_reply_def split: prod.splits sum.splits exn.splits)

lemma no_voice_message_mentions:
  "sublist ''voice_id'' no_voice_message \<and> sublist ''ELEVENLABS_VOICE_ID'' no_voice_message
   \<and> sublist ''ELEVENLABS_VOICE_MAP'' no_voice_message"
  by code_simp

lemma settings_message_mentions: "sublist ''voice_settings'' ''voice_settings must be an object''"
  by code_simp

subsection \<open>The example requests, evaluated\<close>

lemma post_tts_path: "req_path (post_tts body) = ''/tts''"
  by (simp add: post_tts_def)

lemma parsed_named:
  "read_json_body example_lib (post_tts body_named) =
     Inr (Some (JObj [(''text'', JStr ''hi''), (''name'', JStr '' Bob '')]))"
  by code_simp

lemma parsed_bad_settings:
  "read_json_body example_lib (post_tts body_bad_settings) =
     Inr (Some (JObj [(''text'', JStr ''hi''), (''voice_settings'', JStr ''bad'')]))"
  by code_simp

lemma parsed_empty_text:
  "read_json_body example_lib (post_tts body_empty_text) = Inr (Some (JObj [(''text'', JStr [])]))"
  by code_simp

lemma parsed_ann_bob:
  "read_json_body example_lib (post_tts body_ann_bob) =
     Inr (Some (JObj [(''text'', JStr ''hi''), (''name'', JStr ''Ann''), (''speaker'', JStr ''Bob'')]))"
  by code_simp

lemma parsed_ann_cid:
  "read_json_body example_lib (post_tts body_ann_cid) =
     Inr (Some (JObj [(''text'', JStr ''hi''), (''name'', JStr ''Ann''), (''speaker'', JStr ''Cid'')]))"
  by code_simp

lemma text_hi: "body_text example_lib ((''text'', JStr ''hi'') # rest) = ''hi''"
  by (simp add: body_text_def dict_get_def py_or_def py_str_def py_strip_def py_isspace_def)

lemma chain_named:
  "spec_voice_chain example_lib example_cfg
     [(''text'', JStr ''hi''), (''name'', JStr '' Bob '')] = ''v-bob''"
  by code_simp

lemma chain_named_bare:
  "spec_voice_chain example_lib bare_cfg [(''text'', JStr ''hi''), (''name'', JStr '' Bob '')] = []"
  by code_simp

lemma chain_bad_settings:
  "spec_voice_chain example_lib example_cfg
     [(''text'', JStr ''hi''), (''voice_settings'', JStr ''bad'')] = ''v-default''"
  "spec_voice_chain example_lib bare_cfg
     [(''text'', JStr ''hi''), (''voice_settings'', JStr ''bad'')] = []"
  by code_simp+

subsection \<open>Routing and preflight\<close>

lemma do_POST_not_found:
  "req_path req \<noteq> ''/tts'' \<Longrightarrow>
   do_POST lib rq cfg req = (Inr (send_json lib cfg 404 [(''error'', JStr ''Not found'')]), [])"
  by (simp add: do_POST_def)

lemma not_found_body:
  "reply_body (send_json example_lib cfg 404 [(''error'', JStr ''Not found'')]) =
     ''{'' @ quoted ''error'' @ '': '' @ quoted ''Not found'' @ ''}''"
  by (simp add: send_json_def example_lib_def example_dumps_def)

text \<open>
  Claim C8, as the code has it. The handler class answers two methods. A POST to any
  path other than \<^verbatim>\<open>/tts\<close> gets status 404 with the JSON error envelope for \<open>Not found\<close>, and
  nothing else happens. An OPTIONS request, whatever its path and content, gets status
  204 with an empty body and the three CORS headers (allowed origin, methods and
  headers); it does not read the body, resolve a voice or call the provider. A request
  with any other method does not reach the gateway's code: the base class answers it
  with status 501, whatever its path.
\<close>

theorem gateway_routing:
  "(command = ''POST'' \<and> req_path req \<noteq> ''/tts'' \<longrightarrow>
      handle_method lib rq cfg command req =
        (Inr (send_json lib cfg 404 [(''error'', JStr ''Not found'')]), [])
      \<and> reply_status (send_json lib cfg 404 [(''error'', JStr ''Not found'')]) = 404
      \<and> reply_body (send_json lib cfg 404 [(''error'', JStr ''Not found'')]) =
          json_dumps lib None (JObj [(''error'', JStr ''Not found'')]))
   \<and> (command = ''OPTIONS'' \<longrightarrow>
        (\<exists>reply. handle_method lib rq cfg command req = (Inr reply, [])
           \<and> do_OPTIONS cfg req = (Inr reply, [])
           \<and> reply_status reply = 204
           \<and> reply_body reply = []
           \<and> reply_headers reply =
               [(''Access-Control-Allow-Origin'', cfg_cors_origin cfg),
                (''Access-Control-Allow-Methods'', ''POST, OPTIONS''),
                (''Access-Control-Allow-Headers'', ''Content-Type'')]))
   \<and> (command \<noteq> ''POST'' \<and> command \<noteq> ''OPTIONS'' \<longrightarrow>
        (\<exists>reply. handle_method lib rq cfg command req = (Inr reply, [])
           \<and> reply_status reply = 501))"
proof (intro conjI impI)
  assume "command = ''POST'' \<and> req_path req \<noteq> ''/tts''"
  then show "handle_method lib rq cfg command req =
      (Inr (send_json lib cfg 404 [(''error'', JStr ''Not found'')]), [])"
    by (simp add: handle_method_def do_POST_not_found)
next
  show "reply_status (send_json lib cfg 404 [(''error'', JStr ''Not found'')]) = 404"
    by (simp add: send_json_def Let_def)
next
  show "reply_body (send_json lib cfg 404 [(''error'', JStr ''Not found'')]) =
      json_dumps lib None (JObj [(''error'', JStr ''Not found'')])"
    by (simp add: send_json_def Let_def)
next
  assume "command = ''OPTIONS''"
  then show "\<exists>reply. handle_method lib rq cfg command req = (Inr reply, [])
           \<and> do_OPTIONS cfg req = (Inr reply, [])
           \<and> reply_status reply = 204
           \<and> reply_body reply = []
           \<and> reply_headers reply =
               [(''Access-Control-Allow-Origin'', cfg_cors_origin cfg),
                (''Access-Control-Allow-Methods'', ''POST, OPTIONS''),
                (''Access-Control-Allow-Headers'', ''Content-Type'')]"
    by (simp add: handle_method_def do_OPTIONS_def)
next
  assume "command \<noteq> ''POST'' \<and> command \<noteq> ''OPTIONS''"
  then show "\<exists>reply. handle_method lib rq cfg command req = (Inr reply, [])
           \<and> reply_status reply = 501"
    by (simp add: handle_method_def send_error_def Let_def)
qed

text \<open>
  A POST to \<^verbatim>\<open>/voices\<close> is answered with 404 and \<^verbatim>\<open>{"error": "Not found"}\<close>, an OPTIONS
  request with 204, a DELETE with 501.
\<close>

theorem gateway_routing_witness:
  "handle_method example_lib (Some example_requests) example_cfg ''POST''
     \<lparr>req_path = ''/voices'', req_content_length = None, req_rfile = []\<rparr> =
     (Inr (send_json example_lib example_cfg 404 [(''error'', JStr ''Not found'')]), [])
   \<and> reply_body (send_json example_lib example_cfg 404 [(''error'', JStr ''Not found'')]) =
       ''{'' @ quoted ''error'' @ '': '' @ quoted ''Not found'' @ ''}''
   \<and> (\<exists>reply. handle_method example_lib (Some example_requests) example_cfg ''OPTIONS''
          \<lparr>req_path = ''/tts'', req_content_length = None, req_rfile = []\<rparr> = (Inr reply, [])
        \<and> reply_status reply = 204)
   \<and> (\<exists>reply. handle_method example_lib (Some example_requests) example_cfg ''DELETE''
          \<lparr>req_path = ''/tts'', req_content_length = None, req_rfile = []\<rparr> = (Inr reply, [])
        \<and> reply_status reply = 501)"
  using gateway_routing
      [where command = "''POST''"
       and req = "\<lparr>req_path = ''/voices'', req_content_length = None, req_rfile = []\<rparr>"
       and lib = example_lib and rq = "Some example_requests" and cfg = example_cfg]
    gateway_routing
      [where command = "''OPTIONS''"
       and req = "\<lparr>req_path = ''/tts'', req_content_length = None, req_rfile = []\<rparr>"
       and lib = example_lib and rq = "Some example_requests" and cfg = example_cfg]
    gateway_routing
      [where command = "''DELETE''"
       and req = "\<lparr>req_path = ''/tts'', req_content_length = None, req_rfile = []\<rparr>"
       and lib = example_lib and rq = "Some example_requests" and cfg = example_cfg]
  by (auto simp add: not_found_body)

text \<open>
  Claim C8, as stated, fails: not every request to a path other than \<^verbatim>\<open>/tts\<close> gets a
  404. A GET of \<^verbatim>\<open>/voices\<close> is answered with 501 and an OPTIONS request to \<^verbatim>\<open>/voices\<close> with
  204.
\<close>

theorem other_path_not_always_404:
  "(\<exists>reply. handle_method example_lib (Some example_requests) example_cfg ''GET''
        \<lparr>req_path = ''/voices'', req_content_length = None, req_rfile = []\<rparr> = (Inr reply, [])
      \<and> reply_status reply = 501)
   \<and> (\<exists>reply. handle_method example_lib (Some example_requests) example_cfg ''OPTIONS''
        \<lparr>req_path = ''/voices'', req_content_length = None, req_rfile = []\<rparr> = (Inr reply, [])
      \<and> reply_status reply = 204)"
  by (simp add: handle_method_def send_error_def do_OPTIONS_def Let_def)

subsection \<open>Reading and validating the body\<close>

text \<open>
  Claim C9. A POST to \<^verbatim>\<open>/tts\<close> with no \<^verbatim>\<open>Content-Length\<close> header, or with one that reads
  as zero, is not read from the connection: the empty text is replaced by \<^verbatim>\<open>{}\<close>, which
  parses to the empty object, and the reply is 400 \<open>Missing text\<close>, not \<open>Invalid JSON\<close>. The
  three facts about the Python library that this rests on are hypotheses: \<^verbatim>\<open>int("0")\<close> is
  0, the empty byte string decodes to the empty string, and \<^verbatim>\<open>json.loads("{}")\<close> is the
  empty dictionary.
\<close>

theorem gateway_empty_body:
  assumes "req_path req = ''/tts''"
      and "req_content_length req = None \<or>
           (\<exists>h. req_content_length req = Some h \<and> py_int lib h = Some 0)"
      and "py_int lib ''0'' = Some 0"
      and "utf8_decode lib [] = Some []"
      and "json_loads lib ''{}'' = Inr (JObj [])"
  shows "read_json_body lib req = Inr (Some (JObj []))
         \<and> do_POST lib rq cfg req =
           (Inr (send_json lib cfg 400 [(''error'', JStr ''Missing text'')]), [])"
proof -
  from assms(2-5) have parsed: "read_json_body lib req = Inr (Some (JObj []))"
    by (auto simp add: read_json_body_def)
  have "body_text lib [] = []"
    by (simp add: body_text_def dict_get_def py_or_def py_str_def py_strip_def)
  then have "do_POST_payload lib rq cfg (JObj []) =
      (Inr (send_json lib cfg 400 [(''error'', JStr ''Missing text'')]), [])"
    by (simp add: do_POST_payload_cases)
  with assms(1) parsed show ?thesis
    by (simp add: do_POST_parsed)
qed

text \<open>A request without the header, and one whose header is \<^verbatim>\<open>0\<close>.\<close>

theorem gateway_empty_body_witness:
  "do_POST example_lib (Some example_requests) example_cfg
     \<lparr>req_path = ''/tts'', req_content_length = None, req_rfile = []\<rparr> =
     (Inr (send_json example_lib example_cfg 400 [(''error'', JStr ''Missing text'')]), [])
   \<and> do_POST example_lib (Some example_requests) example_cfg
     \<lparr>req_path = ''/tts'', req_content_length = Some ''0'', req_rfile = []\<rparr> =
     (Inr (send_json example_lib example_cfg 400 [(''error'', JStr ''Missing text'')]), [])"
  using gateway_empty_body
      [where req = "\<lparr>req_path = ''/tts'', req_content_length = None, req_rfile = []\<rparr>"
       and lib = example_lib and rq = "Some example_requests" and cfg = example_cfg]
    gateway_empty_body
      [where req = "\<lparr>req_path = ''/tts'', req_content_length = Some ''0'', req_rfile = []\<rparr>"
       and lib = example_lib and rq = "Some example_requests" and cfg = example_cfg]
  by (simp add: example_lib_def example_int_def example_loads_def)

text \<open>
  Claim C5. A POST to \<^verbatim>\<open>/tts\<close> whose body is a JSON object with no \<open>text\<close> field, or
  with a \<open>text\<close> string that is empty once trimmed, is answered with status 400 and the
  envelope \<^verbatim>\<open>{"error": "Missing text"}\<close>; the trace is empty, so the synthesis primitive
  is not called and nothing is sent to the provider.
\<close>

theorem gateway_missing_text:
  assumes "req_path req = ''/tts''"
      and "read_json_body lib req = Inr (Some (JObj payload))"
      and "map_of payload ''text'' = None \<or>
           (\<exists>s. map_of payload ''text'' = Some (JStr s) \<and> py_strip s = [])"
  shows "do_POST lib rq cfg req =
           (Inr (send_json lib cfg 400 [(''error'', JStr ''Missing text'')]), [])
         \<and> reply_status (send_json lib cfg 400 [(''error'', JStr ''Missing text'')]) = 400
         \<and> reply_body (send_json lib cfg 400 [(''error'', JStr ''Missing text'')]) =
             json_dumps lib None (JObj [(''error'', JStr ''Missing text'')])"
proof -
  from assms(3) have "body_text lib payload = []"
    by (auto simp add: body_text_def dict_get_def py_or_def py_str_def py_strip_def)
  then have "do_POST_payload lib rq cfg (JObj payload) =
      (Inr (send_json lib cfg 400 [(''error'', JStr ''Missing text'')]), [])"
    by (simp add: do_POST_payload_cases)
  with assms(1,2) show ?thesis
    by (simp add: do_POST_parsed send_json_def Let_def)
qed

text \<open>The body \<^verbatim>\<open>{"text": ""}\<close>.\<close>

theorem gateway_missing_text_witness:
  "do_POST example_lib (Some example_requests) example_cfg (post_tts body_empty_text) =
     (Inr (send_json example_lib example_cfg 400 [(''error'', JStr ''Missing text'')]), [])
   \<and> reply_status (send_json example_lib example_cfg 400 [(''error'', JStr ''Missing text'')]) = 400
   \<and> reply_body (send_json example_lib example_cfg 400 [(''error'', JStr ''Missing text'')]) =
       ''{'' @ quoted ''error'' @ '': '' @ quoted ''Missing text'' @ ''}''"
  using gateway_missing_text [OF post_tts_path parsed_empty_text,
      where rq = "Some example_requests" and cfg = example_cfg]
  by (simp add: py_strip_def example_lib_def example_dumps_def)

subsection \<open>Voice resolution\<close>

text \<open>
  \<^verbatim>\<open>load_voice_map\<close> stores every entry under a key that is trimmed and lower-cased, which
  is the form in which the handler looks a speaker name up.
\<close>

lemma voice_map_fold_keys:
  "k \<in> dom (foldl (\<lambda>voice_map kv.
          if snd kv = JNull then voice_map
          else voice_map(py_lower (py_strip (fst kv)) \<mapsto> py_strip (py_str lib (snd kv))))
        m0 payload) \<Longrightarrow>
   k \<in> dom m0 \<or> (\<exists>k0 \<in> fst ` set payload. k = py_lower (py_strip k0))"
proof (induction payload arbitrary: m0)
  case Nil
  then show ?case by simp
next
  case (Cons kv payload)
  from Cons.IH [OF Cons.prems [simplified]] show ?case
    by (auto split: if_splits)
qed

lemma load_voice_map_keys:
  assumes "load_voice_map lib env = Inr voice_map" and "k \<in> dom voice_map"
  shows "\<exists>k0. k = py_lower (py_strip k0)"
proof -
  from assms obtain payload where
    "voice_map = foldl (\<lambda>voice_map kv.
          if snd kv = JNull then voice_map
          else voice_map(py_lower (py_strip (fst kv)) \<mapsto> py_strip (py_str lib (snd kv))))
        Map.empty payload"
    by (auto simp add: load_voice_map_def split: if_splits sum.splits json.splits loads_error.splits)
  with assms(2) voice_map_fold_keys [of k lib Map.empty payload] show ?thesis
    by auto
qed

text \<open>
  Claim C1. Take a POST to \<^verbatim>\<open>/tts\<close> whose body is a JSON object with a text that is not
  empty once trimmed, so that the handler reaches voice resolution. The voice id it
  resolves is the first non-empty one of (a) the \<open>voice_id\<close> field of the body, trimmed,
  (b) the voice map's entry for the speaker name, trimmed and lower-cased, (c) the
  configured default. When all three are empty the reply is 400 with a message that
  names \<open>voice_id\<close> and the two settings to supply, and the trace is empty: the provider
  is not called. Otherwise every call of the synthesis primitive and every request to
  the provider carries exactly that voice id, and such a call is made when the
  \<open>voice_settings\<close> field is acceptable.
\<close>

theorem gateway_voice_resolution:
  assumes "req_path req = ''/tts''"
      and "read_json_body lib req = Inr (Some (JObj payload))"
      and "body_text lib payload \<noteq> []"
  shows "(spec_voice_chain lib cfg payload = [] \<longrightarrow>
            do_POST lib rq cfg req =
              (Inr (send_json lib cfg 400 [(''error'', JStr no_voice_message)]), []))
         \<and> (spec_voice_chain lib cfg payload \<noteq> [] \<and> settings_ok payload \<longrightarrow>
              (\<exists>a tr. snd (do_POST lib rq cfg req) = SynthCall a # tr
                 \<and> sa_voice_id a = JStr (spec_voice_chain lib cfg payload)))
         \<and> (\<forall>a. SynthCall a \<in> set (snd (do_POST lib rq cfg req)) \<longrightarrow>
              sa_voice_id a = JStr (spec_voice_chain lib cfg payload))
         \<and> (\<forall>c. HttpPost c \<in> set (snd (do_POST lib rq cfg req)) \<longrightarrow>
              post_url c = BASE_URL @ ''/text-to-speech/'' @ spec_voice_chain lib cfg payload)
         \<and> sublist ''voice_id'' no_voice_message
         \<and> sublist ''ELEVENLABS_VOICE_ID'' no_voice_message
         \<and> sublist ''ELEVENLABS_VOICE_MAP'' no_voice_message"
proof -
  let ?chain = "spec_voice_chain lib cfg payload"
  let ?a = "gateway_args lib cfg payload"
  have run: "do_POST lib rq cfg req = do_POST_payload lib rq cfg (JObj payload)"
    using assms(1,2) by (rule do_POST_parsed)
  have voice: "sa_voice_id ?a = JStr ?chain"
    by (simp add: gateway_args_def)
  have url: "post_url (synth_post_call lib ?a) = BASE_URL @ ''/text-to-speech/'' @ ?chain"
    by (simp add: synth_post_call_def gateway_args_def py_str_def)
  obtain tr where tr: "snd (synthesize_bytes lib rq ?a) = SynthCall ?a # tr"
    and rest: "\<forall>e \<in> set tr. e = HttpPost (synth_post_call lib ?a)"
    using synthesize_bytes_events by blast
  have none: "?chain = [] \<Longrightarrow> do_POST lib rq cfg req =
      (Inr (send_json lib cfg 400 [(''error'', JStr no_voice_message)]), [])"
    using assms(3) by (simp add: run do_POST_payload_cases)
  have called: "?chain \<noteq> [] \<Longrightarrow> settings_ok payload \<Longrightarrow>
      snd (do_POST lib rq cfg req) = SynthCall ?a # tr"
    using assms(3) tr by (simp add: run do_POST_payload_cases gateway_reply_trace)
  have events: "set (snd (do_POST lib rq cfg req)) \<subseteq>
      {SynthCall ?a, HttpPost (synth_post_call lib ?a)}"
    using assms(3) tr rest by (auto simp add: run do_POST_payload_cases gateway_reply_trace)
  have only_voice: "\<forall>a. SynthCall a \<in> set (snd (do_POST lib rq cfg req)) \<longrightarrow>
      sa_voice_id a = JStr ?chain"
    using events voice by auto
  have only_url: "\<forall>c. HttpPost c \<in> set (snd (do_POST lib rq cfg req)) \<longrightarrow>
      post_url c = BASE_URL @ ''/text-to-speech/'' @ ?chain"
    using events url by auto
  from none called voice only_voice only_url no_voice_message_mentions show ?thesis
    by blast
qed

text \<open>
  The body \<^verbatim>\<open>{"text": "hi", "name": " Bob "}\<close>: with a voice map that knows \<open>bob\<close> the
  primitive is called with that voice, and with neither map nor default the reply is
  the 400.
\<close>

theorem gateway_voice_resolution_witness:
  "(\<exists>a tr. snd (do_POST example_lib (Some example_requests) example_cfg (post_tts body_named)) =
       SynthCall a # tr \<and> sa_voice_id a = JStr ''v-bob'')
   \<and> do_POST example_lib (Some example_requests) bare_cfg (post_tts body_named) =
       (Inr (send_json example_lib bare_cfg 400 [(''error'', JStr no_voice_message)]), [])"
  using gateway_voice_resolution [OF post_tts_path parsed_named,
      where cfg = example_cfg and rq = "Some example_requests"]
    gateway_voice_resolution [OF post_tts_path parsed_named,
      where cfg = bare_cfg and rq = "Some example_requests"]
  by (simp add: text_hi chain_named chain_named_bare settings_ok_def dict_get_def)

text \<open>
  On the gateway the synthesis primitive is only ever called with a voice id that is a
  non-empty string and a text that is not empty.
\<close>

lemma gateway_synth_args_nonempty:
  assumes "SynthCall a \<in> set (snd (do_POST lib rq cfg req))"
  shows "(\<exists>v. sa_voice_id a = JStr v \<and> v \<noteq> []) \<and> sa_text a \<noteq> []"
proof -
  have path: "req_path req = ''/tts''"
    using assms by (auto simp add: do_POST_def split: if_splits)
  then obtain body where parsed: "read_json_body lib req = Inr (Some body)"
    using assms by (auto simp add: do_POST_def split: sum.splits option.splits)
  then have run: "do_POST lib rq cfg req = do_POST_payload lib rq cfg body"
    using path by (simp add: do_POST_parsed)
  obtain payload where body: "body = JObj payload"
    using assms run by (cases body) (auto simp add: do_POST_payload_def)
  let ?a = "gateway_args lib cfg payload"
  obtain tr where tr: "snd (synthesize_bytes lib rq ?a) = SynthCall ?a # tr"
    and rest: "\<forall>e \<in> set tr. e = HttpPost (synth_post_call lib ?a)"
    using synthesize_bytes_events by blast
  from assms have "body_text lib payload \<noteq> [] \<and> spec_voice_chain lib cfg payload \<noteq> [] \<and> a = ?a"
    using tr rest
    by (auto simp add: run body do_POST_payload_cases gateway_reply_trace split: if_splits)
  then show ?thesis
    by (simp add: gateway_args_def)
qed

subsection \<open>The \<open>voice_settings\<close> field\<close>

text \<open>
  Claim C4, as the code has it. The handler looks at \<open>voice_settings\<close> after it has
  resolved a voice id, not before. For a POST to \<^verbatim>\<open>/tts\<close> whose body is a JSON object with
  a non-empty text and a \<open>voice_settings\<close> value that is neither \<^verbatim>\<open>null\<close> nor an object:
  when a voice id resolves, the reply is 400 \<open>voice_settings must be an object\<close> and the
  provider is not called; when none resolves, the reply is the 400 of voice resolution.
\<close>

theorem gateway_voice_settings_after_voice:
  assumes "req_path req = ''/tts''"
      and "read_json_body lib req = Inr (Some (JObj payload))"
      and "body_text lib payload \<noteq> []"
      and "dict_get payload ''voice_settings'' \<noteq> JNull"
      and "\<not> is_dict (dict_get payload ''voice_settings'')"
  shows "(spec_voice_chain lib cfg payload \<noteq> [] \<longrightarrow>
            do_POST lib rq cfg req =
              (Inr (send_json lib cfg 400 [(''error'', JStr ''voice_settings must be an object'')]), []))
         \<and> (spec_voice_chain lib cfg payload = [] \<longrightarrow>
            do_POST lib rq cfg req =
              (Inr (send_json lib cfg 400 [(''error'', JStr no_voice_message)]), []))
         \<and> sublist ''voice_settings'' ''voice_settings must be an object''"
proof -
  have run: "do_POST lib rq cfg req = do_POST_payload lib rq cfg (JObj payload)"
    using assms(1,2) by (rule do_POST_parsed)
  have bad: "\<not> settings_ok payload"
    using assms(4,5) by (simp add: settings_ok_def)
  show ?thesis
    using assms(3) bad settings_message_mentions
    by (simp add: run do_POST_payload_cases)
qed

text \<open>
  The body \<^verbatim>\<open>{"text": "hi", "voice_settings": "bad"}\<close> sent to a gateway with a default
  voice: 400, \<open>voice_settings must be an object\<close>.
\<close>

theorem gateway_voice_settings_after_voice_witness:
  "do_POST example_lib (Some example_requests) example_cfg (post_tts body_bad_settings) =
     (Inr (send_json example_lib example_cfg 400
        [(''error'', JStr ''voice_settings must be an object'')]), [])"
  using gateway_voice_settings_after_voice [OF post_tts_path parsed_bad_settings,
      where cfg = example_cfg and rq = "Some example_requests"]
  by (simp add: text_hi chain_bad_settings dict_get_def)

text \<open>
  Claim C4, as stated, fails: the same body sent to a gateway with no voice map and no
  default voice is answered by voice resolution, with a message that does not mention
  \<open>voice_settings\<close>.
\<close>

theorem bad_settings_without_voice:
  "do_POST example_lib (Some example_requests) bare_cfg (post_tts body_bad_settings) =
     (Inr (send_json example_lib bare_cfg 400 [(''error'', JStr no_voice_message)]), [])
   \<and> reply_body (send_json example_lib bare_cfg 400 [(''error'', JStr no_voice_message)]) =
       ''{'' @ quoted ''error'' @ '': '' @ quoted no_voice_message @ ''}''
   \<and> \<not> sublist ''voice_settings''
         (''{'' @ quoted ''error'' @ '': '' @ quoted no_voice_message @ ''}'')"
proof -
  have "do_POST example_lib (Some example_requests) bare_cfg (post_tts body_bad_settings) =
      (Inr (send_json example_lib bare_cfg 400 [(''error'', JStr no_voice_message)]), [])"
    by (simp add: do_POST_parsed [OF post_tts_path parsed_bad_settings] do_POST_payload_cases
        text_hi chain_bad_settings)
  moreover have
    "reply_body (send_json example_lib bare_cfg 400 [(''error'', JStr no_voice_message)]) =
       ''{'' @ quoted ''error'' @ '': '' @ quoted no_voice_message @ ''}''"
    by (simp add: send_json_def example_lib_def example_dumps_def)
  moreover have "\<not> sublist ''voice_settings''
      (''{'' @ quoted ''error'' @ '': '' @ quoted no_voice_message @ ''}'')"
    by code_simp
  ultimately show ?thesis by simp
qed

subsection \<open>Name and speaker\<close>

lemma speaker_key_name:
  assumes "map_of payload ''name'' = Some (JStr n)" and "n \<noteq> []"
  shows "speaker_key lib payload = py_lower (py_strip n)"
  using assms by (simp add: speaker_key_def dict_get_def py_or_def py_str_def)

lemma speaker_key_speaker:
  assumes "map_of payload ''name'' = None \<or> map_of payload ''name'' = Some (JStr [])"
      and "map_of payload ''speaker'' = Some (JStr s)"
  shows "speaker_key lib payload = py_lower (py_strip s)"
proof (cases s)
  case Nil
  with assms show ?thesis
    by (auto simp add: speaker_key_def dict_get_def py_or_def py_str_def)
next
  case (Cons c cs)
  with assms show ?thesis
    by (auto simp add: speaker_key_def dict_get_def py_or_def py_str_def)
qed

lemma other_fields_agree:
  assumes "\<forall>k. k \<noteq> ''speaker'' \<longrightarrow> map_of payload' k = map_of payload k"
  shows "dict_get payload' ''text'' = dict_get payload ''text''"
    and "dict_get payload' ''name'' = dict_get payload ''name''"
    and "dict_get payload' ''voice_id'' = dict_get payload ''voice_id''"
    and "dict_get payload' ''model_id'' = dict_get payload ''model_id''"
    and "dict_get payload' ''output_format'' = dict_get payload ''output_format''"
    and "dict_get payload' ''voice_settings'' = dict_get payload ''voice_settings''"
  using assms by (simp_all add: dict_get_def)

lemma payload_agree:
  assumes "body_text lib payload' = body_text lib payload"
      and "body_voice_id lib payload' = body_voice_id lib payload"
      and "speaker_key lib payload' = speaker_key lib payload"
      and "dict_get payload' ''model_id'' = dict_get payload ''model_id''"
      and "dict_get payload' ''output_format'' = dict_get payload ''output_format''"
      and "dict_get payload' ''voice_settings'' = dict_get payload ''voice_settings''"
  shows "do_POST_payload lib rq cfg (JObj payload') = do_POST_payload lib rq cfg (JObj payload)"
  using assms
  by (simp add: do_POST_payload_cases spec_voice_chain_def settings_ok_def gateway_args_def)

lemma do_POST_map_lookup:
  assumes "req_path req = ''/tts''"
      and "read_json_body lib req = Inr (Some (JObj payload))"
      and "map_of payload ''text'' = Some (JStr t)" and "py_strip t \<noteq> []"
      and "map_of payload ''voice_id'' = None"
      and "map_of payload ''voice_settings'' = None"
      and "speaker_key lib payload = key"
  shows "let voice = first_nonempty
             [case cfg_voice_map cfg key of None \<Rightarrow> [] | Some v \<Rightarrow> v,
              case cfg_default_voice_id cfg of None \<Rightarrow> [] | Some d \<Rightarrow> d]
         in if voice = []
            then do_POST lib rq cfg req =
                   (Inr (send_json lib cfg 400 [(''error'', JStr no_voice_message)]), [])
            else \<exists>a tr. snd (do_POST lib rq cfg req) = SynthCall a # tr
                   \<and> sa_voice_id a = JStr voice"
proof -
  let ?voice = "first_nonempty
             [case cfg_voice_map cfg key of None \<Rightarrow> [] | Some v \<Rightarrow> v,
              case cfg_default_voice_id cfg of None \<Rightarrow> [] | Some d \<Rightarrow> d]"
  let ?a = "gateway_args lib cfg payload"
  have run: "do_POST lib rq cfg req = do_POST_payload lib rq cfg (JObj payload)"
    using assms(1,2) by (rule do_POST_parsed)
  have "t \<noteq> []"
    using assms(4) by (auto simp add: py_strip_def)
  then have "body_text lib payload = py_strip t"
    using assms(3) by (simp add: body_text_def dict_get_def py_or_def py_str_def)
  with assms(4) have t: "body_text lib payload \<noteq> []"
    by simp
  have v: "body_voice_id lib payload = []"
    using assms(5) by (simp add: body_voice_id_def dict_get_def py_or_def py_str_def py_strip_def)
  have ok: "settings_ok payload"
    using assms(6) by (simp add: settings_ok_def dict_get_def)
  have chain: "spec_voice_chain lib cfg payload = ?voice"
    using v assms(7) by (simp add: spec_voice_chain_def)
  obtain tr where tr: "snd (synthesize_bytes lib rq ?a) = SynthCall ?a # tr"
    using synthesize_bytes_events by blast
  have voice: "sa_voice_id ?a = JStr ?voice"
    using chain by (simp add: gateway_args_def)
  have none: "?voice = [] \<Longrightarrow> do_POST lib rq cfg req =
      (Inr (send_json lib cfg 400 [(''error'', JStr no_voice_message)]), [])"
    using t chain by (simp add: run do_POST_payload_cases)
  have some: "?voice \<noteq> [] \<Longrightarrow> snd (do_POST lib rq cfg req) = SynthCall ?a # tr"
    using t ok chain tr by (simp add: run do_POST_payload_cases gateway_reply_trace)
  show ?thesis
    unfolding Let_def using none some voice by auto
qed

lemma parsed_speaker_only:
  "read_json_body example_lib (post_tts body_speaker_only) =
     Inr (Some (JObj [(''text'', JStr ''hi''), (''speaker'', JStr ''Bob'')]))"
  by code_simp

lemma example_keys:
  "py_lower (py_strip ''Ann'') = ''ann''"
  "py_lower (py_strip '' Bob '') = ''bob''"
  "py_lower (py_strip ''Bob'') = ''bob''"
  "py_strip ''hi'' = ''hi''"
  by code_simp+

lemma example_cfg_lookups:
  "cfg_voice_map example_cfg ''ann'' = None"
  "cfg_voice_map example_cfg ''bob'' = Some ''v-bob''"
  "cfg_default_voice_id example_cfg = Some ''v-default''"
  by (simp_all add: example_cfg_def)

text \<open>
  Claim C10. Take a POST to \<^verbatim>\<open>/tts\<close> whose body is a JSON object. When the body has a
  non-empty \<open>name\<close> string, a body that differs from it only in its \<open>speaker\<close> field is
  answered in exactly the same way. Let the body moreover have a text, no \<open>voice_id\<close>
  and no \<open>voice_settings\<close>, so that the voice map decides. With a non-empty \<open>name\<close> the
  handler uses the voice that the map holds for the name, trimmed and lower-cased, else
  the default voice, else it replies 400; this is so whatever the \<open>speaker\<close> field and
  whatever the map holds for it. With \<open>name\<close> absent or the empty string and a \<open>speaker\<close>
  string, it is the voice that the map holds for the speaker that is used.
\<close>

theorem name_before_speaker:
  assumes "req_path req = ''/tts''" and "req_path req' = ''/tts''"
      and "read_json_body lib req = Inr (Some (JObj payload))"
      and "read_json_body lib req' = Inr (Some (JObj payload'))"
  shows "(map_of payload ''name'' = Some (JStr n) \<and> n \<noteq> []
            \<and> (\<forall>k. k \<noteq> ''speaker'' \<longrightarrow> map_of payload' k = map_of payload k)
          \<longrightarrow> do_POST lib rq cfg req' = do_POST lib rq cfg req)
         \<and> (map_of payload ''text'' = Some (JStr t) \<and> py_strip t \<noteq> []
            \<and> map_of payload ''voice_id'' = None \<and> map_of payload ''voice_settings'' = None
            \<and> map_of payload ''name'' = Some (JStr n) \<and> n \<noteq> []
          \<longrightarrow> (let voice = first_nonempty
                     [case cfg_voice_map cfg (py_lower (py_strip n)) of None \<Rightarrow> [] | Some v \<Rightarrow> v,
                      case cfg_default_voice_id cfg of None \<Rightarrow> [] | Some d \<Rightarrow> d]
                in if voice = []
                   then do_POST lib rq cfg req =
                          (Inr (send_json lib cfg 400 [(''error'', JStr no_voice_message)]), [])
                   else \<exists>a tr. snd (do_POST lib rq cfg req) = SynthCall a # tr
                          \<and> sa_voice_id a = JStr voice))
         \<and> (map_of payload ''text'' = Some (JStr t) \<and> py_strip t \<noteq> []
            \<and> map_of payload ''voice_id'' = None \<and> map_of payload ''voice_settings'' = None
            \<and> (map_of payload ''name'' = None \<or> map_of payload ''name'' = Some (JStr []))
            \<and> map_of payload ''speaker'' = Some (JStr s)
          \<longrightarrow> (let voice = first_nonempty
                     [case cfg_voice_map cfg (py_lower (py_strip s)) of None \<Rightarrow> [] | Some v \<Rightarrow> v,
                      case cfg_default_voice_id cfg of None \<Rightarrow> [] | Some d \<Rightarrow> d]
                in if voice = []
                   then do_POST lib rq cfg req =
                          (Inr (send_json lib cfg 400 [(''error'', JStr no_voice_message)]), [])
                   else \<exists>a tr. snd (do_POST lib rq cfg req) = SynthCall a # tr
                          \<and> sa_voice_id a = JStr voice))"
proof (intro conjI impI)
  assume h: "map_of payload ''name'' = Some (JStr n) \<and> n \<noteq> []
            \<and> (\<forall>k. k \<noteq> ''speaker'' \<longrightarrow> map_of payload' k = map_of payload k)"
  then have name: "map_of payload ''name'' = Some (JStr n)" and n: "n \<noteq> []"
    and same: "\<forall>k. k \<noteq> ''speaker'' \<longrightarrow> map_of payload' k = map_of payload k"
    by simp_all
  note fields = other_fields_agree [OF same]
  have name': "map_of payload' ''name'' = Some (JStr n)"
    using same name by simp
  have key: "speaker_key lib payload = py_lower (py_strip n)"
    using name n by (rule speaker_key_name)
  have key': "speaker_key lib payload' = py_lower (py_strip n)"
    using name' n by (rule speaker_key_name)
  have t_eq: "body_text lib payload' = body_text lib payload"
    by (simp only: body_text_def fields)
  have v_eq: "body_voice_id lib payload' = body_voice_id lib payload"
    by (simp only: body_voice_id_def fields)
  have "do_POST_payload lib rq cfg (JObj payload') = do_POST_payload lib rq cfg (JObj payload)"
    using t_eq v_eq _ fields(4,5,6)
  proof (rule payload_agree)
    show "speaker_key lib payload' = speaker_key lib payload"
      by (simp only: key key')
  qed
  then show "do_POST lib rq cfg req' = do_POST lib rq cfg req"
    using assms by (simp add: do_POST_parsed)
next
  assume h: "map_of payload ''text'' = Some (JStr t) \<and> py_strip t \<noteq> []
            \<and> map_of payload ''voice_id'' = None \<and> map_of payload ''voice_settings'' = None
            \<and> map_of payload ''name'' = Some (JStr n) \<and> n \<noteq> []"
  then have key: "speaker_key lib payload = py_lower (py_strip n)"
    by (simp add: speaker_key_name)
  from h show "let voice = first_nonempty
                     [case cfg_voice_map cfg (py_lower (py_strip n)) of None \<Rightarrow> [] | Some v \<Rightarrow> v,
                      case cfg_default_voice_id cfg of None \<Rightarrow> [] | Some d \<Rightarrow> d]
                in if voice = []
                   then do_POST lib rq cfg req =
                          (Inr (send_json lib cfg 400 [(''error'', JStr no_voice_message)]), [])
                   else \<exists>a tr. snd (do_POST lib rq cfg req) = SynthCall a # tr
                          \<and> sa_voice_id a = JStr voice"
    using do_POST_map_lookup [OF assms(1) assms(3) _ _ _ _ key, of t] by blast
next
  assume h: "map_of payload ''text'' = Some (JStr t) \<and> py_strip t \<noteq> []
            \<and> map_of payload ''voice_id'' = None \<and> map_of payload ''voice_settings'' = None
            \<and> (map_of payload ''name'' = None \<or> map_of payload ''name'' = Some (JStr []))
            \<and> map_of payload ''speaker'' = Some (JStr s)"
  then have key: "speaker_key lib payload = py_lower (py_strip s)"
    by (simp add: speaker_key_speaker)
  from h show "let voice = first_nonempty
                     [case cfg_voice_map cfg (py_lower (py_strip s)) of None \<Rightarrow> [] | Some v \<Rightarrow> v,
                      case cfg_default_voice_id cfg of None \<Rightarrow> [] | Some d \<Rightarrow> d]
                in if voice = []
                   then do_POST lib rq cfg req =
                          (Inr (send_json lib cfg 400 [(''error'', JStr no_voice_message)]), [])
                   else \<exists>a tr. snd (do_POST lib rq cfg req) = SynthCall a # tr
                          \<and> sa_voice_id a = JStr voice"
    using do_POST_map_lookup [OF assms(1) assms(3) _ _ _ _ key, of t] by blast
qed

text \<open>
  With a voice map that knows \<open>bob\<close> alone and the default \<open>v-default\<close>: the bodies with
  name Ann and the speakers Bob and Cid are answered alike, with the default voice, since
  the map has nothing for \<open>ann\<close>; the name \<open>Bob\<close> with blanks around it gets the voice of
  \<open>bob\<close>; and so does the speaker Bob when there is no name.
\<close>

theorem name_before_speaker_witness:
  "do_POST example_lib (Some example_requests) example_cfg (post_tts body_ann_cid) =
     do_POST example_lib (Some example_requests) example_cfg (post_tts body_ann_bob)
   \<and> (\<exists>a tr. snd (do_POST example_lib (Some example_requests) example_cfg (post_tts body_ann_bob)) =
          SynthCall a # tr \<and> sa_voice_id a = JStr ''v-default'')
   \<and> (\<exists>a tr. snd (do_POST example_lib (Some example_requests) example_cfg (post_tts body_named)) =
          SynthCall a # tr \<and> sa_voice_id a = JStr ''v-bob'')
   \<and> (\<exists>a tr. snd (do_POST example_lib (Some example_requests) example_cfg (post_tts body_speaker_only)) =
          SynthCall a # tr \<and> sa_voice_id a = JStr ''v-bob'')"
proof -
  have same: "do_POST example_lib (Some example_requests) example_cfg (post_tts body_ann_cid) =
     do_POST example_lib (Some example_requests) example_cfg (post_tts body_ann_bob)"
    and ann: "\<exists>a tr. snd (do_POST example_lib (Some example_requests) example_cfg (post_tts body_ann_bob)) =
          SynthCall a # tr \<and> sa_voice_id a = JStr ''v-default''"
    using name_before_speaker [OF post_tts_path post_tts_path parsed_ann_bob parsed_ann_cid,
        where n = "''Ann''" and t = "''hi''" and cfg = example_cfg and rq = "Some example_requests"]
    by (simp_all add: example_keys example_cfg_lookups Let_def)
  have bob: "\<exists>a tr. snd (do_POST example_lib (Some example_requests) example_cfg (post_tts body_named)) =
          SynthCall a # tr \<and> sa_voice_id a = JStr ''v-bob''"
    using name_before_speaker [OF post_tts_path post_tts_path parsed_named parsed_named,
        where n = "'' Bob ''" and t = "''hi''" and cfg = example_cfg and rq = "Some example_requests"]
    by (simp add: example_keys example_cfg_lookups Let_def)
  have speaker: "\<exists>a tr. snd (do_POST example_lib (Some example_requests) example_cfg
          (post_tts body_speaker_only)) = SynthCall a # tr \<and> sa_voice_id a = JStr ''v-bob''"
    using name_before_speaker [OF post_tts_path post_tts_path parsed_speaker_only parsed_speaker_only,
        where s = "''Bob''" and t = "''hi''" and cfg = example_cfg and rq = "Some example_requests"]
    by (simp add: example_keys example_cfg_lookups Let_def)
  from same ann bob speaker show ?thesis by blast
qed

section \<open>Properties of the command line\<close>

subsection \<open>Picking a voice by name\<close>

lemma name_contains_voice:
  "is_voice v \<Longrightarrow> name_contains q v = Inr (sublist q (py_lower (voice_name v)))"
  by (cases v) (auto split: json.splits)

lemma select_matches_voices:
  "list_all is_voice vs \<Longrightarrow>
   select_matches q vs = Inr (filter (\<lambda>v. sublist q (py_lower (voice_name v))) vs)"
  by (induction vs) (simp_all add: name_contains_voice)

lemma voice_line_voice:
  "is_voice v \<Longrightarrow> voice_line lib v = Inr (printed_line lib v)"
  by (cases v) (simp_all add: printed_line_def Let_def)

lemma print_each_voices:
  "list_all is_voice vs \<Longrightarrow>
   print_each lib vs = (Inr (), map (\<lambda>v. Printed (printed_line lib v)) vs)"
  by (induction vs) (simp_all add: voice_line_voice)

lemma matches_are_voices:
  "list_all is_voice vs \<Longrightarrow> list_all is_voice (spec_matches q vs)"
  by (simp add: spec_matches_def list_all_iff)

lemma catalog_voices: "list_all is_voice [adam, nadia]"
  by (simp add: adam_def nadia_def dict_get_def py_or_def)

lemma matches_ad: "spec_matches ''ad'' [adam, nadia] = [adam, nadia]"
  by code_simp

lemma lines_catalog:
  "printed_line example_lib adam = ''Adam [premade] - v-adam''"
  "printed_line example_lib nadia = ''Nadia - v-nadia''"
  by code_simp+

text \<open>
  Claim C6, as the code has it. On a catalog of voices, \<^verbatim>\<open>pick_voice_by_name\<close> trims and
  lower-cases the query and keeps, in catalog order, the voices whose lower-cased name
  contains it. With no match it stops with an error that quotes the query; with one
  match it returns that voice; with two or more it prints a heading and one line for
  each matched voice, and no other, and stops with exit code 1. The query \<open>ad\<close> matches
  both Adam and Nadia; the query \<open>ada\<close> matches Adam alone.
\<close>

theorem pick_voice_by_name_outcomes:
  assumes "list_all is_voice vs"
  shows "pick_voice_by_name lib (JList vs) name_query =
     (case spec_matches name_query vs of
        [] \<Rightarrow>
          (Inl (SystemExit (Msg (''No voice matched name query: '' @ py_repr lib (JStr name_query)))), [])
      | [m] \<Rightarrow> (Inr m, [])
      | m # m' # ms \<Rightarrow>
          (Inl (SystemExit (Code 1)),
           Printed multiple_matched # map (\<lambda>v. Printed (printed_line lib v)) (m # m' # ms)))"
proof -
  let ?ms = "spec_matches name_query vs"
  have sel: "select_matches (py_lower (py_strip name_query)) vs = Inr ?ms"
    using assms by (simp add: select_matches_voices spec_matches_def)
  have pr: "print_voices lib (JList ?ms) = (Inr (), map (\<lambda>v. Printed (printed_line lib v)) ?ms)"
    using matches_are_voices [OF assms] by (simp add: print_voices_def print_each_voices)
  show ?thesis
  proof (cases ?ms)
    case Nil
    then show ?thesis
      by (simp add: pick_voice_by_name_def sel)
  next
    case (Cons m rest)
    show ?thesis
    proof (cases rest)
      case Nil
      with Cons show ?thesis
        by (simp add: pick_voice_by_name_def sel)
    next
      case (Cons m' ms)
      with \<open>?ms = m # rest\<close> have ms: "?ms = m # m' # ms" by simp
      from pr have "print_voices lib (JList (m # m' # ms)) =
          (Inr (), map (\<lambda>v. Printed (printed_line lib v)) (m # m' # ms))"
        by (simp only: ms)
      then show ?thesis
        by (simp add: pick_voice_by_name_def sel ms)
    qed
  qed
qed

text \<open>
  On the catalog of Adam and Nadia: \<open>ad\<close> is ambiguous and both are listed, \<open>NADIA\<close> with
  blanks around it picks Nadia, and \<open>bob\<close> matches nothing.
\<close>

theorem pick_voice_by_name_outcomes_witness:
  "pick_voice_by_name example_lib (JList [adam, nadia]) ''ad'' =
     (Inl (SystemExit (Code 1)),
      [Printed multiple_matched, Printed ''Adam [premade] - v-adam'', Printed ''Nadia - v-nadia''])
   \<and> pick_voice_by_name example_lib (JList [adam, nadia]) '' NADIA '' = (Inr nadia, [])
   \<and> pick_voice_by_name example_lib (JList [adam, nadia]) ''bob'' =
     (Inl (SystemExit (Msg (''No voice matched name query: '' @ [CHR 0x27] @ ''bob'' @ [CHR 0x27]))), [])"
proof -
  have m1: "spec_matches '' NADIA '' [adam, nadia] = [nadia]" by code_simp
  have m2: "spec_matches ''bob'' [adam, nadia] = []" by code_simp
  have r: "py_repr example_lib (JStr ''bob'') = [CHR 0x27] @ ''bob'' @ [CHR 0x27]"
    by (simp add: example_lib_def example_repr_def)
  show ?thesis
    using pick_voice_by_name_outcomes
        [OF catalog_voices, where lib = example_lib and name_query = "''ad''"]
      pick_voice_by_name_outcomes
        [OF catalog_voices, where lib = example_lib and name_query = "'' NADIA ''"]
      pick_voice_by_name_outcomes
        [OF catalog_voices, where lib = example_lib and name_query = "''bob''"]
    unfolding matches_ad m1 m2 r
    by (simp add: lines_catalog)
qed

text \<open>
  Claim C6, as stated, fails in its example: \<open>nadia\<close> does not contain \<open>ada\<close>, so with
  both voices in the catalog the query \<open>ada\<close> is not ambiguous and Adam is returned.
\<close>

theorem ada_matches_adam_only:
  "pick_voice_by_name example_lib (JList [adam, nadia]) ''ada'' = (Inr adam, [])
   \<and> sublist ''ada'' (py_lower ''Adam'') \<and> \<not> sublist ''ada'' (py_lower ''Nadia'')"
proof -
  have "pick_voice_by_name example_lib (JList [adam, nadia]) ''ada'' = (Inr adam, [])"
    by code_simp
  moreover have "sublist ''ada'' (py_lower ''Adam'')" by code_simp
  moreover have "\<not> sublist ''ada'' (py_lower ''Nadia'')" by code_simp
  ultimately show ?thesis by simp
qed

subsection \<open>Resolving the voice\<close>

lemma list_voices_fetch:
  "snd (list_voices lib (Some r) api_key) =
     [HttpGet \<lparr>get_url = BASE_URL @ ''/voices'',
               get_headers = [(''xi-api-key'', api_key), (''Accept'', ''application/json'')],
               get_timeout = 30\<rparr>]"
  by (simp add: list_voices_def get_requests_def Let_def split: sum.splits option.splits json.splits)

lemma given_Some: "given (Some v) \<longleftrightarrow> v \<noteq> []"
  by (simp add: given_def opt_str_def)

lemma then_res_Inl: "then_res (Inl e, tr) f = (Inl e, tr)"
  by (simp add: then_res_def)

lemma then_res_Inr: "then_res (Inr x, tr) f = (case f x of (r, tr') \<Rightarrow> (r, tr @ tr'))"
  by (simp add: then_res_def)

lemma example_catalog:
  "list_voices example_lib (Some example_requests) ''key'' =
     (Inr (JList [JObj [(''voice_id'', JStr ''v-adam''), (''name'', JStr ''Adam''),
                        (''category'', JStr ''premade'')], nadia]),
      [HttpGet \<lparr>get_url = BASE_URL @ ''/voices'',
                get_headers = [(''xi-api-key'', ''key''), (''Accept'', ''application/json'')],
                get_timeout = 30\<rparr>])"
  by (simp add: list_voices_def get_requests_def example_requests_def adam_def)

text \<open>
  Claim C3. \<^verbatim>\<open>resolve_voice_id\<close> takes the first of these that applies. (1) A voice id
  given on the command line is returned, and nothing is fetched. (2) Otherwise a voice
  id given in the environment is returned, again without a fetch. Otherwise the catalog
  is fetched, with one GET of \<^verbatim>\<open>/voices\<close>, and a failure of the fetch is the outcome.
  (3) With a name query, the outcome is that of \<^verbatim>\<open>pick_voice_by_name\<close> on the fetched
  catalog, and the id returned is the \<open>voice_id\<close> of the voice it picks. (4) Without
  one, an empty catalog stops with the error \<open>No voices returned\<close>, and a catalog whose
  first entry carries a voice id returns that id after printing a note with the name and
  the id of that first voice. Every voice of the specification's data model carries an
  id; what the code does with a first entry that has none is the lemma that follows.
\<close>

theorem resolve_voice_id_precedence:
  "(arg_voice_id args = Some v \<and> v \<noteq> [] \<longrightarrow>
      resolve_voice_id lib rq env api_key args = (Inr (JStr v), []))
   \<and> (\<not> given (arg_voice_id args) \<and> env_voice_id env = Some e \<and> e \<noteq> [] \<longrightarrow>
      resolve_voice_id lib rq env api_key args = (Inr (JStr e), []))
   \<and> (\<not> given (arg_voice_id args) \<and> \<not> given (env_voice_id env) \<longrightarrow>
        (\<forall>err tr. list_voices lib rq api_key = (Inl err, tr) \<longrightarrow>
           resolve_voice_id lib rq env api_key args = (Inl err, tr))
      \<and> (\<forall>voices tr q.
           list_voices lib rq api_key = (Inr voices, tr) \<and> arg_voice_name args = Some q \<and> q \<noteq> [] \<longrightarrow>
           resolve_voice_id lib rq env api_key args =
             (case pick_voice_by_name lib voices q of
                (Inl err, tr') \<Rightarrow> (Inl err, tr @ tr')
              | (Inr voice, tr') \<Rightarrow> (py_item voice ''voice_id'', tr @ tr')))
      \<and> (\<forall>tr.
           list_voices lib rq api_key = (Inr (JList []), tr) \<and> \<not> given (arg_voice_name args) \<longrightarrow>
           resolve_voice_id lib rq env api_key args =
             (Inl (SystemExit (Msg ''No voices returned. Check your ElevenLabs account.'')), tr))
      \<and> (\<forall>first others tr.
           list_voices lib rq api_key = (Inr (JList (JObj first # others)), tr)
           \<and> \<not> given (arg_voice_name args) \<and> truthy (dict_get first ''voice_id'') \<longrightarrow>
           resolve_voice_id lib rq env api_key args =
             (Inr (dict_get first ''voice_id''),
              tr @ [Printed (''Using first available voice: '' @
                      py_str lib (py_or (dict_get first ''name'') (JStr ''unknown'')) @ '' ('' @
                      py_str lib (dict_get first ''voice_id'') @ '')'')])))
   \<and> (\<forall>r. rq = Some r \<longrightarrow>
        snd (list_voices lib rq api_key) =
          [HttpGet \<lparr>get_url = BASE_URL @ ''/voices'',
                    get_headers = [(''xi-api-key'', api_key), (''Accept'', ''application/json'')],
                    get_timeout = 30\<rparr>])"
proof (intro conjI impI allI)
  assume "arg_voice_id args = Some v \<and> v \<noteq> []"
  then show "resolve_voice_id lib rq env api_key args = (Inr (JStr v), [])"
    by (simp add: resolve_voice_id_def given_Some opt_str_def)
next
  assume "\<not> given (arg_voice_id args) \<and> env_voice_id env = Some e \<and> e \<noteq> []"
  then show "resolve_voice_id lib rq env api_key args = (Inr (JStr e), [])"
    by (simp add: resolve_voice_id_def given_Some opt_str_def)
next
  fix err tr
  assume "\<not> given (arg_voice_id args) \<and> \<not> given (env_voice_id env)"
    and "list_voices lib rq api_key = (Inl err, tr)"
  then show "resolve_voice_id lib rq env api_key args = (Inl err, tr)"
    by (simp add: resolve_voice_id_def then_res_Inl)
next
  fix voices tr q
  assume "\<not> given (arg_voice_id args) \<and> \<not> given (env_voice_id env)"
    and "list_voices lib rq api_key = (Inr voices, tr) \<and> arg_voice_name args = Some q \<and> q \<noteq> []"
  then show "resolve_voice_id lib rq env api_key args =
             (case pick_voice_by_name lib voices q of
                (Inl err, tr') \<Rightarrow> (Inl err, tr @ tr')
              | (Inr voice, tr') \<Rightarrow> (py_item voice ''voice_id'', tr @ tr'))"
    by (simp add: resolve_voice_id_def then_res_Inr given_Some)
      (simp add: then_res_def split: prod.splits sum.splits)
next
  fix tr
  assume "\<not> given (arg_voice_id args) \<and> \<not> given (env_voice_id env)"
    and "list_voices lib rq api_key = (Inr (JList []), tr) \<and> \<not> given (arg_voice_name args)"
  then show "resolve_voice_id lib rq env api_key args =
             (Inl (SystemExit (Msg ''No voices returned. Check your ElevenLabs account.'')), tr)"
    by (simp add: resolve_voice_id_def then_res_Inr)
next
  fix first others tr
  assume "\<not> given (arg_voice_id args) \<and> \<not> given (env_voice_id env)"
    and "list_voices lib rq api_key = (Inr (JList (JObj first # others)), tr)
           \<and> \<not> given (arg_voice_name args) \<and> truthy (dict_get first ''voice_id'')"
  then show "resolve_voice_id lib rq env api_key args =
             (Inr (dict_get first ''voice_id''),
              tr @ [Printed (''Using first available voice: '' @
                      py_str lib (py_or (dict_get first ''name'') (JStr ''unknown'')) @ '' ('' @
                      py_str lib (dict_get first ''voice_id'') @ '')'')])"
    by (simp add: resolve_voice_id_def then_res_Inr first_voice_note_def Let_def)
next
  fix r
  assume "rq = Some r"
  then show "snd (list_voices lib rq api_key) =
          [HttpGet \<lparr>get_url = BASE_URL @ ''/voices'',
                    get_headers = [(''xi-api-key'', api_key), (''Accept'', ''application/json'')],
                    get_timeout = 30\<rparr>]"
    by (simp add: list_voices_fetch)
qed

text \<open>
  With \<^verbatim>\<open>--voice-id v-adam\<close> that id is returned and nothing is fetched; with no voice
  argument and no environment default the catalog is fetched, Adam is its first voice,
  and the note names him.
\<close>

theorem resolve_voice_id_precedence_witness:
  "resolve_voice_id example_lib (Some example_requests) example_env ''key'' blank_file_args =
     (Inr (JStr ''v-adam''), [])
   \<and> resolve_voice_id example_lib (Some example_requests) example_env ''key'' no_voice_args =
     (Inr (JStr ''v-adam''),
      [HttpGet \<lparr>get_url = BASE_URL @ ''/voices'',
                get_headers = [(''xi-api-key'', ''key''), (''Accept'', ''application/json'')],
                get_timeout = 30\<rparr>,
       Printed ''Using first available voice: Adam (v-adam)''])"
  using resolve_voice_id_precedence [where args = blank_file_args and v = "''v-adam''"
      and lib = example_lib and rq = "Some example_requests" and env = example_env
      and api_key = "''key''"]
    resolve_voice_id_precedence [where args = no_voice_args
      and lib = example_lib and rq = "Some example_requests" and env = example_env
      and api_key = "''key''"]
  by (simp add: example_catalog blank_file_args_def no_voice_args_def example_env_def given_def
      opt_str_def dict_get_def py_or_def py_str_def)

text \<open>
  The guard of the last step: a first catalog entry without a voice id stops the run
  with an error of its own.
\<close>

lemma resolve_voice_id_first_without_id:
  assumes "\<not> given (arg_voice_id args)" and "\<not> given (env_voice_id env)"
      and "\<not> given (arg_voice_name args)"
      and "list_voices lib rq api_key = (Inr (JList (JObj first # others)), tr)"
      and "\<not> truthy (dict_get first ''voice_id'')"
  shows "resolve_voice_id lib rq env api_key args =
           (Inl (SystemExit (Msg ''First voice is missing a voice_id.'')), tr)"
  using assms by (simp add: resolve_voice_id_def then_res_Inr Let_def)

subsection \<open>What reaches the synthesis primitive\<close>

text \<open>
  Claim C2 says that the synthesis primitive is never called with an empty voice id or
  an empty text, on the gateway and on the command line. On the gateway that holds
  (\<open>gateway_synth_args_nonempty\<close>). On the command line it does not: \<^verbatim>\<open>resolve_text\<close> trims
  the content of the text file and returns it unchecked, so the command line
  \<^verbatim>\<open>--voice-id v-adam --text-file blank.txt --no-play\<close>, with a file that holds only white
  space, calls \<^verbatim>\<open>synthesize_bytes\<close> with the empty text and sends it to the provider.
\<close>

theorem cli_blank_file_reaches_synthesis:
  "resolve_text example_env blank_file_args = Inr []
   \<and> main example_lib (Some example_requests) example_env blank_file_args =
     (Inr Finished,
      [SynthCall \<lparr>sa_api_key = ''key'', sa_voice_id = JStr ''v-adam'', sa_text = [],
                  sa_model_id = JNull, sa_output_format = JStr ''mp3_44100_128'',
                  sa_enable_logging = True, sa_voice_settings = JNull\<rparr>,
       HttpPost \<lparr>post_url = ''https://api.elevenlabs.io/v1/text-to-speech/v-adam'',
                 post_headers = [(''xi-api-key'', ''key''), (''Content-Type'', ''application/json''),
                                 (''Accept'', ''*/*'')],
                 post_params = [(''output_format'', JStr ''mp3_44100_128'')],
                 post_json = [(''text'', JStr [])],
                 post_timeout = 120\<rparr>,
       WroteFile ''out.mp3'' ''ID3-audio'',
       Printed ''Saved audio to out.mp3''])"
  by (simp add: main_def get_api_key_def resolve_voice_id_def resolve_text_def synthesize_def
      synthesize_bytes_def get_requests_def synth_post_call_def synth_params_def synth_payload_def
      then_res_def given_def opt_str_def py_str_def py_strip_def py_isspace_def BASE_URL_def
      example_env_def blank_file_args_def example_requests_def Let_def)

end
